theory Spec2Isabelle
  imports Complex_Main
begin

section \<open>Python values carried by the JSON request bodies\<close>

text \<open>
  The handlers of \<^verbatim>\<open>app.py\<close> and the services read request fields without converting
  them, so a field of a product is whatever JSON scalar the client sent. A Python float
  is a rational number or one of the three special values. JSON arrays and objects as
  field values are outside the model.
\<close>

datatype pyfloat = Finite rat | PosInf | NegInf | NaN

datatype pyval = PNone | PBool bool | PInt int | PFloat pyfloat | PStr string

text \<open>
  The exceptions that the modelled code can meet. \<open>ValueError\<close> carries its message,
  because the handlers echo \<^verbatim>\<open>str(e)\<close> of the one raised by
  \<^verbatim>\<open>Product.update_quantity\<close>; for the conversions of the runtime the message is
  the runtime's text without the quoted literal. \<open>IntegrityError\<close> is the signal of
  the store for a violated column constraint, \<open>StatementError\<close> the wrapper that
  SQLAlchemy puts around an exception raised while it converts a parameter.
\<close>

datatype error =
    ValueError string
  | TypeError
  | OverflowError
  | AttributeError
  | KeyError
  | IntegrityError
  | StatementError

type_synonym data = "(string \<times> pyval) list"

definition getitem :: "data \<Rightarrow> string \<Rightarrow> error + pyval" where
  "getitem d k = (case map_of d k of None \<Rightarrow> Inl KeyError | Some v \<Rightarrow> Inr v)"

definition get_or_none :: "data \<Rightarrow> string \<Rightarrow> pyval" where
  "get_or_none d k = (case map_of d k of None \<Rightarrow> PNone | Some v \<Rightarrow> v)"

definition has_key :: "data \<Rightarrow> string \<Rightarrow> bool" where
  "has_key d k = (map_of d k \<noteq> None)"

subsection \<open>Comparisons, truth value, \<^verbatim>\<open>isinstance\<close>\<close>

fun float_lt0 :: "pyfloat \<Rightarrow> bool" where
  "float_lt0 (Finite r) = (r < 0)"
| "float_lt0 NegInf = True"
| "float_lt0 PosInf = False"
| "float_lt0 NaN = False"

fun float_gt0 :: "pyfloat \<Rightarrow> bool" where
  "float_gt0 (Finite r) = (0 < r)"
| "float_gt0 PosInf = True"
| "float_gt0 NegInf = False"
| "float_gt0 NaN = False"

text \<open>\<^verbatim>\<open>v < 0\<close> and \<^verbatim>\<open>v > 0\<close>: a \<^verbatim>\<open>TypeError\<close> for \<^verbatim>\<open>None\<close> and for a string.\<close>

fun py_lt0 :: "pyval \<Rightarrow> error + bool" where
  "py_lt0 (PInt i) = Inr (i < 0)"
| "py_lt0 (PBool b) = Inr False"
| "py_lt0 (PFloat f) = Inr (float_lt0 f)"
| "py_lt0 PNone = Inl TypeError"
| "py_lt0 (PStr s) = Inl TypeError"

fun py_gt0 :: "pyval \<Rightarrow> error + bool" where
  "py_gt0 (PInt i) = Inr (0 < i)"
| "py_gt0 (PBool b) = Inr b"
| "py_gt0 (PFloat f) = Inr (float_gt0 f)"
| "py_gt0 PNone = Inl TypeError"
| "py_gt0 (PStr s) = Inl TypeError"

fun truthy :: "pyval \<Rightarrow> bool" where
  "truthy PNone = False"
| "truthy (PBool b) = b"
| "truthy (PInt i) = (i \<noteq> 0)"
| "truthy (PFloat f) = (f \<noteq> Finite 0)"
| "truthy (PStr s) = (s \<noteq> [])"

text \<open>\<^verbatim>\<open>isinstance(v, int)\<close>: \<^verbatim>\<open>bool\<close> is a subclass of \<^verbatim>\<open>int\<close>.\<close>

fun isinstance_int :: "pyval \<Rightarrow> bool" where
  "isinstance_int (PInt i) = True"
| "isinstance_int (PBool b) = True"
| "isinstance_int v = False"

subsection \<open>Characters, \<^verbatim>\<open>str.strip\<close>, \<^verbatim>\<open>str(int)\<close>\<close>

definition is_digit :: "char \<Rightarrow> bool" where
  "is_digit c = (48 \<le> (of_char c :: nat) \<and> (of_char c :: nat) \<le> 57)"

definition digit_val :: "char \<Rightarrow> nat" where
  "digit_val c = of_char c - 48"

definition digit_char :: "nat \<Rightarrow> char" where
  "digit_char d = char_of (48 + d)"

text \<open>The white space of \<^verbatim>\<open>str.isspace\<close> among the code points below 256.\<close>

definition is_space :: "char \<Rightarrow> bool" where
  "is_space c =
     (let n = (of_char c :: nat)
      in (9 \<le> n \<and> n \<le> 13) \<or> (28 \<le> n \<and> n \<le> 32) \<or> n = 133 \<or> n = 160)"

definition strip :: "string \<Rightarrow> string" where
  "strip s = rev (dropWhile is_space (rev (dropWhile is_space s)))"

text \<open>
  The white space that \<^verbatim>\<open>int\<close> and \<^verbatim>\<open>float\<close> skip at both ends of a string: that of
  the C locale, and the two separators below 256 that the runtime first turns into
  blanks. The separators U+001C to U+001F, which \<^verbatim>\<open>strip\<close> removes, are not among them.
\<close>

definition is_blank :: "char \<Rightarrow> bool" where
  "is_blank c =
     (let n = (of_char c :: nat) in (9 \<le> n \<and> n \<le> 13) \<or> n = 32 \<or> n = 133 \<or> n = 160)"

definition trim :: "string \<Rightarrow> string" where
  "trim s = rev (dropWhile is_blank (rev (dropWhile is_blank s)))"

definition lower :: "char \<Rightarrow> char" where
  "lower c =
     (let n = (of_char c :: nat) in if 65 \<le> n \<and> n \<le> 90 then char_of (n + 32) else c)"

fun digits_of :: "nat \<Rightarrow> string" where
  "digits_of n =
     (if n < 10 then [digit_char n] else digits_of (n div 10) @ [digit_char (n mod 10)])"

declare digits_of.simps [simp del]

definition int_text :: "int \<Rightarrow> string" where
  "int_text i = (if i < 0 then CHR ''-'' # digits_of (nat (- i)) else digits_of (nat i))"

text \<open>
  The runtime refuses to convert between \<^verbatim>\<open>int\<close> and \<^verbatim>\<open>str\<close> beyond 4300
  digits, in both directions.
\<close>

definition max_str_digits :: nat where
  "max_str_digits = 4300"


subsection \<open>\<^verbatim>\<open>int(v)\<close>\<close>

text \<open>
  A run of decimal digits in which single underscores may stand between two digits:
  the value read so far, the number of digits read, and the rest of the input.
\<close>

fun digitpart :: "nat \<Rightarrow> nat \<Rightarrow> string \<Rightarrow> nat \<times> nat \<times> string" where
  "digitpart acc k [] = (acc, k, [])"
| "digitpart acc k (c # cs) =
     (if is_digit c then digitpart (10 * acc + digit_val c) (Suc k) cs
      else if c = CHR ''_'' \<and> 0 < k \<and> (case cs of [] \<Rightarrow> False | d # _ \<Rightarrow> is_digit d)
      then digitpart acc k cs
      else (acc, k, c # cs))"

definition all_digits :: "string \<Rightarrow> nat option" where
  "all_digits s =
     (case digitpart 0 0 s of (v, k, rest) \<Rightarrow> if 0 < k \<and> rest = [] then Some v else None)"

definition int_of_str :: "string \<Rightarrow> error + int" where
  "int_of_str s =
     (let t = trim s;
          (neg, body) = (case t of
                           [] \<Rightarrow> (False, [])
                         | c # cs \<Rightarrow> if c = CHR ''-'' then (True, cs)
                                     else if c = CHR ''+'' then (False, cs)
                                     else (False, t))
      in case digitpart 0 0 body of
           (v, k, rest) \<Rightarrow>
             if max_str_digits < k
             then Inl (ValueError ''Exceeds the limit (4300 digits) for integer string conversion'')
             else if 0 < k \<and> rest = [] then Inr (if neg then - int v else int v)
             else Inl (ValueError ''invalid literal for int() with base 10''))"

text \<open>Truncation towards zero, as \<^verbatim>\<open>int(float)\<close> does.\<close>

definition trunc :: "rat \<Rightarrow> int" where
  "trunc r = (if 0 \<le> r then \<lfloor>r\<rfloor> else \<lceil>r\<rceil>)"

fun py_int :: "pyval \<Rightarrow> error + int" where
  "py_int (PInt i) = Inr i"
| "py_int (PBool b) = Inr (if b then 1 else 0)"
| "py_int (PFloat (Finite r)) = Inr (trunc r)"
| "py_int (PFloat PosInf) = Inl OverflowError"
| "py_int (PFloat NegInf) = Inl OverflowError"
| "py_int (PFloat NaN) = Inl (ValueError ''cannot convert float NaN to integer'')"
| "py_int (PStr s) = int_of_str s"
| "py_int PNone = Inl TypeError"

subsection \<open>\<^verbatim>\<open>float(v)\<close>\<close>

fun bits :: "nat \<Rightarrow> nat" where
  "bits n = (if n = 0 then 0 else Suc (bits (n div 2)))"

declare bits.simps [simp del]

definition pow2 :: "int \<Rightarrow> rat" where
  "pow2 e = (if 0 \<le> e then 2 ^ nat e else 1 / 2 ^ nat (- e))"

definition pow10 :: "int \<Rightarrow> rat" where
  "pow10 e = (if 0 \<le> e then 10 ^ nat e else 1 / 10 ^ nat (- e))"

text \<open>
  Rounding of a positive rational to binary64, to nearest with ties to even: 53
  significant bits, the quantum never below \<open>2\<^sup>-\<^sup>1\<^sup>0\<^sup>7\<^sup>4\<close>, infinity from
  \<open>2\<^sup>1\<^sup>0\<^sup>2\<^sup>4\<close> on.
\<close>

definition round_pos :: "rat \<Rightarrow> pyfloat" where
  "round_pos r =
     (let (p, q) = quotient_of r;
          e0 = int (bits (nat p)) - int (bits (nat q));
          e = (if pow2 e0 \<le> r then e0 else e0 - 1);
          qu = pow2 (max e (- 1022) - 52);
          m = r / qu;
          n = \<lfloor>m\<rfloor>;
          fr = m - of_int n;
          n' = (if 1 / 2 < fr \<or> (fr = 1 / 2 \<and> odd n) then n + 1 else n);
          v = of_int n' * qu
      in if pow2 1024 \<le> v then PosInf else Finite v)"

fun fneg :: "pyfloat \<Rightarrow> pyfloat" where
  "fneg (Finite r) = Finite (- r)"
| "fneg PosInf = NegInf"
| "fneg NegInf = PosInf"
| "fneg NaN = NaN"

definition round_b64 :: "rat \<Rightarrow> pyfloat" where
  "round_b64 r =
     (if r = 0 then Finite 0 else if 0 < r then round_pos r else fneg (round_pos (- r)))"

text \<open>
  The decimal literals that \<^verbatim>\<open>float(str)\<close> accepts after the sign: digits with an
  optional fraction and an optional exponent, or a fraction alone.
\<close>

definition exponent_of :: "string \<Rightarrow> int option" where
  "exponent_of s =
     (case s of
        [] \<Rightarrow> Some 0
      | c # cs \<Rightarrow>
          if lower c = CHR ''e'' then
            (let (neg, body) = (case cs of
                                  [] \<Rightarrow> (False, [])
                                | d # ds \<Rightarrow> if d = CHR ''-'' then (True, ds)
                                            else if d = CHR ''+'' then (False, ds)
                                            else (False, cs))
             in case all_digits body of
                  None \<Rightarrow> None
                | Some v \<Rightarrow> Some (if neg then - int v else int v))
          else None)"

definition decimal_of :: "string \<Rightarrow> rat option" where
  "decimal_of s =
     (case digitpart 0 0 s of (m1, k1, r1) \<Rightarrow>
        (case (case r1 of
                 [] \<Rightarrow> (0, 0, r1)
               | c # cs \<Rightarrow> if c = CHR ''.'' then digitpart 0 0 cs else (0, 0, r1))
         of (m2, k2, r2) \<Rightarrow>
           if k1 + k2 = 0 then None
           else (case exponent_of r2 of
                   None \<Rightarrow> None
                 | Some ex \<Rightarrow>
                     Some (of_nat (m1 * 10 ^ k2 + m2) * pow10 (ex - int k2)))))"

definition float_of_str :: "string \<Rightarrow> error + pyfloat" where
  "float_of_str s =
     (let t = trim s;
          (neg, body) = (case t of
                           [] \<Rightarrow> (False, [])
                         | c # cs \<Rightarrow> if c = CHR ''-'' then (True, cs)
                                     else if c = CHR ''+'' then (False, cs)
                                     else (False, t));
          w = map lower body
      in if w = ''inf'' \<or> w = ''infinity'' then Inr (if neg then NegInf else PosInf)
         else if w = ''nan'' then Inr NaN
         else (case decimal_of body of
                 None \<Rightarrow> Inl (ValueError ''could not convert string to float'')
               | Some r \<Rightarrow> Inr (if neg then fneg (round_b64 r) else round_b64 r)))"

text \<open>
  \<^verbatim>\<open>float(int)\<close> raises \<^verbatim>\<open>OverflowError\<close> where the rounded value is out of range;
  \<^verbatim>\<open>float(str)\<close> gives an infinity there.
\<close>

fun py_float :: "pyval \<Rightarrow> error + pyfloat" where
  "py_float (PFloat f) = Inr f"
| "py_float (PInt i) =
     (case round_b64 (of_int i) of
        PosInf \<Rightarrow> Inl OverflowError
      | NegInf \<Rightarrow> Inl OverflowError
      | f \<Rightarrow> Inr f)"
| "py_float (PBool b) = Inr (Finite (if b then 1 else 0))"
| "py_float (PStr s) = float_of_str s"
| "py_float PNone = Inl TypeError"

section \<open>The store: \<^verbatim>\<open>models.py\<close>\<close>

text \<open>
  The store is the pair of tables behind \<^verbatim>\<open>db.session\<close>, rows in insertion order, in
  the SQLite database that every configuration of the repository names. A row holds
  what an object shows after \<^verbatim>\<open>save\<close>: the commit expires the attributes, and the
  next access reads them back from the table. So a value is stored as its column makes
  it: \<^verbatim>\<open>Integer\<close>, \<^verbatim>\<open>Float\<close> and \<^verbatim>\<open>String\<close> columns convert what they are given,
  an integer outside 64 bits is refused by the driver, and NaN is stored as NULL. Of the
  column declarations the primary key, \<^verbatim>\<open>unique=True\<close>, \<^verbatim>\<open>nullable=False\<close> and
  \<^verbatim>\<open>default=\<close> are enforced. The length limits of the string columns, which SQLite
  ignores, the foreign key, which it does not check, and the two timestamps of
  \<^verbatim>\<open>BaseModel\<close> are not modelled.

  \<^verbatim>\<open>werkzeug\<close>'s salted hash is idealised: a credential is checked by comparing
  the password it was made from.
\<close>

datatype credential = Hashed string

definition generate_password_hash :: "string \<Rightarrow> credential" where
  "generate_password_hash pw = Hashed pw"


record user =
  uid :: int
  username :: string
  password_hash :: credential
  email :: "string option"
  user_is_active :: bool

record product =
  pid :: int
  name :: pyval
  ptype :: pyval
  sku :: pyval
  image_url :: pyval
  description :: pyval
  quantity :: pyval
  price :: pyval
  is_active :: bool
  created_by :: "int option"

record db =
  users :: "user list"
  products :: "product list"

text \<open>The key of a new row: one more than the largest key in the table.\<close>

definition next_id :: "int list \<Rightarrow> int" where
  "next_id ids = fold max ids 0 + 1"

subsection \<open>\<^verbatim>\<open>User\<close>\<close>

text \<open>
  \<^verbatim>\<open>User.__init__\<close>; the key and the active flag (\<^verbatim>\<open>default=True\<close>) are given
  by the store at the insert, the fields hold placeholders until then.
\<close>

definition User :: "string \<Rightarrow> string \<Rightarrow> string option \<Rightarrow> user" where
  "User uname pw em =
     \<lparr>uid = 0, username = uname, password_hash = generate_password_hash pw,
      email = em, user_is_active = True\<rparr>"


definition find_by_username :: "db \<Rightarrow> string \<Rightarrow> user option" where
  "find_by_username s uname = find (\<lambda>u. username u = uname) (users s)"

definition find_by_email :: "db \<Rightarrow> string \<Rightarrow> user option" where
  "find_by_email s em = find (\<lambda>u. email u = Some em) (users s)"


text \<open>
  \<^verbatim>\<open>save\<close> of a new user: the insert fails on a taken username and on a taken
  email (a missing email never clashes); \<^verbatim>\<open>save\<close> rolls back and raises again.
\<close>

definition insert_user :: "db \<Rightarrow> user \<Rightarrow> error + (db \<times> user)" where
  "insert_user s u =
     (if list_ex (\<lambda>v. username v = username u) (users s) then Inl IntegrityError
      else if email u \<noteq> None \<and> list_ex (\<lambda>v. email v = email u) (users s)
      then Inl IntegrityError
      else (let u' = u\<lparr>uid := next_id (map uid (users s)), user_is_active := True\<rparr>
            in Inr (s\<lparr>users := users s @ [u']\<rparr>, u')))"

subsection \<open>\<^verbatim>\<open>Product\<close>\<close>

definition Product ::
  "pyval \<Rightarrow> pyval \<Rightarrow> pyval \<Rightarrow> pyval \<Rightarrow> pyval \<Rightarrow> pyval \<Rightarrow> pyval \<Rightarrow> int option \<Rightarrow> product"
where
  "Product nm sk qty pr ty img descr cb =
     \<lparr>pid = 0, name = nm, ptype = ty, sku = sk, image_url = img, description = descr,
      quantity = qty, price = pr, is_active = True, created_by = cb\<rparr>"

subsection \<open>What a column makes of a value\<close>

definition bind_e :: "error + 'a \<Rightarrow> ('a \<Rightarrow> error + 'b) \<Rightarrow> error + 'b" where
  "bind_e m f = (case m of Inl e \<Rightarrow> Inl e | Inr x \<Rightarrow> f x)"

text \<open>The integers that the driver binds: those of 64 bits.\<close>

definition int64 :: "int \<Rightarrow> bool" where
  "int64 i = (- 9223372036854775808 \<le> i \<and> i \<le> 9223372036854775807)"

text \<open>
  The text that looks like a number to SQLite: blanks of the C locale at both ends, a
  sign, digits with an optional fraction and an optional exponent, or a fraction alone;
  no underscores. The result says whether the text is a run of digits only, and gives
  its value.
\<close>

definition sqlite_space :: "char \<Rightarrow> bool" where
  "sqlite_space c = (let n = (of_char c :: nat) in (9 \<le> n \<and> n \<le> 13) \<or> n = 32)"

definition sqlite_trim :: "string \<Rightarrow> string" where
  "sqlite_trim s = rev (dropWhile sqlite_space (rev (dropWhile sqlite_space s)))"

fun digit_run :: "nat \<Rightarrow> nat \<Rightarrow> string \<Rightarrow> nat \<times> nat \<times> string" where
  "digit_run acc k [] = (acc, k, [])"
| "digit_run acc k (c # cs) =
     (if is_digit c then digit_run (10 * acc + digit_val c) (Suc k) cs else (acc, k, c # cs))"

definition signed :: "string \<Rightarrow> bool \<times> string" where
  "signed t =
     (case t of
        [] \<Rightarrow> (False, [])
      | c # cs \<Rightarrow> if c = CHR ''-'' then (True, cs)
                  else if c = CHR ''+'' then (False, cs)
                  else (False, t))"

definition sqlite_exponent :: "string \<Rightarrow> int option" where
  "sqlite_exponent s =
     (case s of
        [] \<Rightarrow> Some 0
      | c # cs \<Rightarrow>
          if lower c = CHR ''e'' then
            (case signed cs of
               (neg, body) \<Rightarrow>
                 (case digit_run 0 0 body of
                    (v, k, rest) \<Rightarrow>
                      if 0 < k \<and> rest = [] then Some (if neg then - int v else int v)
                      else None))
          else None)"

definition sqlite_number :: "string \<Rightarrow> (bool \<times> rat) option" where
  "sqlite_number s =
     (case signed (sqlite_trim s) of
        (neg, body) \<Rightarrow>
          (case digit_run 0 0 body of
             (m1, k1, r1) \<Rightarrow>
               if 0 < k1 \<and> r1 = [] then Some (True, if neg then - of_nat m1 else of_nat m1)
               else
                 (case (case r1 of
                          [] \<Rightarrow> (0, 0, r1)
                        | c # cs \<Rightarrow> if c = CHR ''.'' then digit_run 0 0 cs else (0, 0, r1))
                  of
                    (m2, k2, r2) \<Rightarrow>
                      if k1 + k2 = 0 then None
                      else
                        (case sqlite_exponent r2 of
                           None \<Rightarrow> None
                         | Some ex \<Rightarrow>
                             Some (False,
                                   (if neg then - 1 else 1)
                                   * (of_nat (m1 * 10 ^ k2 + m2) * pow10 (ex - int k2)))))))"

text \<open>
  A real in a column of integer affinity becomes an integer when that loses nothing
  and the integer lies strictly between the two ends of the 64-bit range.
\<close>

fun real_to_integer :: "pyfloat \<Rightarrow> pyval" where
  "real_to_integer (Finite x) =
     (if of_int \<lfloor>x\<rfloor> = x \<and> - 9223372036854775808 < \<lfloor>x\<rfloor> \<and> \<lfloor>x\<rfloor> < 9223372036854775807
      then PInt \<lfloor>x\<rfloor> else PFloat (Finite x))"
| "real_to_integer NaN = PNone"
| "real_to_integer f = PFloat f"

text \<open>
  A text in a column of integer affinity: a run of digits within 64 bits is that
  integer; any other number is read as a real, taken here as correctly rounded, and
  then treated as a real is; anything else stays the text.
\<close>

definition integer_of_text :: "string \<Rightarrow> pyval" where
  "integer_of_text s =
     (case sqlite_number s of
        None \<Rightarrow> PStr s
      | Some (whole, r) \<Rightarrow>
          if whole \<and> int64 \<lfloor>r\<rfloor> then PInt \<lfloor>r\<rfloor> else real_to_integer (round_b64 r))"

text \<open>
  A real in a column of text affinity is printed with 15 significant digits, always
  with a decimal point, with an exponent when that is below -4 or above 14. The
  fifteenth digit is rounded here half up on the exact value; the engine's own
  arithmetic can differ from that in the last digit.
\<close>

definition dec_exponent :: "rat \<Rightarrow> int" where
  "dec_exponent a =
     (case quotient_of a of
        (p, q) \<Rightarrow>
          (case int (length (digits_of (nat p))) - int (length (digits_of (nat q))) of
             e0 \<Rightarrow> if pow10 e0 \<le> a then e0 else e0 - 1))"

definition sig15 :: "rat \<Rightarrow> int \<times> int" where
  "sig15 a =
     (case dec_exponent a of
        e \<Rightarrow>
          (case \<lfloor>a / pow10 (e - 14) + 1 / 2\<rfloor> of
             m \<Rightarrow> if m = 1000000000000000 then (100000000000000, e + 1) else (m, e)))"

definition drop_zeros :: "string \<Rightarrow> string" where
  "drop_zeros ds = rev (dropWhile (\<lambda>c. c = CHR ''0'') (rev ds))"

definition or_zero :: "string \<Rightarrow> string" where
  "or_zero ds = (if ds = [] then ''0'' else ds)"

definition exp_text :: "int \<Rightarrow> string" where
  "exp_text e =
     (if e < 0 then ''-'' else ''+'') @ (if \<bar>e\<bar> < 10 then ''0'' else []) @ digits_of (nat \<bar>e\<bar>)"

definition positive_text :: "rat \<Rightarrow> string" where
  "positive_text a =
     (case sig15 a of
        (m, e) \<Rightarrow>
          (case drop_zeros (digits_of (nat m)) of
             [] \<Rightarrow> []
           | c # cs \<Rightarrow>
               if e < - 4 \<or> 15 \<le> e then c # ''.'' @ or_zero cs @ ''e'' @ exp_text e
               else if 0 \<le> e
               then take (nat e + 1) ((c # cs) @ replicate (nat e + 1) CHR ''0'')
                    @ ''.'' @ or_zero (drop (nat e + 1) (c # cs))
               else ''0.'' @ replicate (nat (- e - 1)) CHR ''0'' @ c # cs))"

fun real_text :: "pyfloat \<Rightarrow> string" where
  "real_text (Finite r) =
     (if r = 0 then ''0.0''
      else if r < 0 then CHR ''-'' # positive_text (- r)
      else positive_text r)"
| "real_text PosInf = ''Inf''"
| "real_text NegInf = ''-Inf''"
| "real_text NaN = []"

text \<open>
  The three kinds of column. A \<^verbatim>\<open>String\<close> or \<^verbatim>\<open>Text\<close> column keeps a string and
  prints a number; an \<^verbatim>\<open>Integer\<close> column keeps an integer, makes 0 and 1 of the truth
  values and reads a number from a real or a text where it can; a \<^verbatim>\<open>Float\<close> column
  stores \<^verbatim>\<open>float(value)\<close>, which SQLAlchemy applies to the parameter itself.
\<close>

fun text_column :: "pyval \<Rightarrow> error + pyval" where
  "text_column PNone = Inr PNone"
| "text_column (PStr t) = Inr (PStr t)"
| "text_column (PBool b) = Inr (PStr (if b then ''1'' else ''0''))"
| "text_column (PInt i) = (if int64 i then Inr (PStr (int_text i)) else Inl OverflowError)"
| "text_column (PFloat f) = Inr (if f = NaN then PNone else PStr (real_text f))"

fun integer_column :: "pyval \<Rightarrow> error + pyval" where
  "integer_column PNone = Inr PNone"
| "integer_column (PBool b) = Inr (PInt (if b then 1 else 0))"
| "integer_column (PInt i) = (if int64 i then Inr (PInt i) else Inl OverflowError)"
| "integer_column (PFloat f) = Inr (real_to_integer f)"
| "integer_column (PStr t) = Inr (integer_of_text t)"

fun float_column :: "pyval \<Rightarrow> error + pyval" where
  "float_column PNone = Inr PNone"
| "float_column v =
     (case py_float v of
        Inl e \<Rightarrow> Inl StatementError
      | Inr f \<Rightarrow> Inr (if f = NaN then PNone else PFloat f))"

definition integer_key :: "int option \<Rightarrow> error + int option" where
  "integer_key k =
     (case k of
        None \<Rightarrow> Inr None
      | Some i \<Rightarrow> if int64 i then Inr (Some i) else Inl OverflowError)"

subsection \<open>Rows of products\<close>

text \<open>
  \<^verbatim>\<open>save\<close> of a new product. The price is converted first, while the statement is
  prepared; then the driver binds the other values; then the table checks its
  constraints: \<^verbatim>\<open>name\<close>, \<^verbatim>\<open>sku\<close>, \<^verbatim>\<open>quantity\<close> and \<^verbatim>\<open>price\<close> are not
  nullable, and \<^verbatim>\<open>sku\<close> is unique over all rows, active or not. A \<^verbatim>\<open>quantity\<close>
  that is \<^verbatim>\<open>None\<close> takes the default 0. A failed \<^verbatim>\<open>save\<close> rolls back and raises
  again.
\<close>

definition append_row :: "db \<Rightarrow> product \<Rightarrow> error + (db \<times> product)" where
  "append_row s r = Inr (s\<lparr>products := products s @ [r]\<rparr>, r)"

definition insert_product :: "db \<Rightarrow> product \<Rightarrow> error + (db \<times> product)" where
  "insert_product s p =
     bind_e (float_column (price p)) (\<lambda>pr.
     bind_e (text_column (name p)) (\<lambda>nm.
     bind_e (text_column (ptype p)) (\<lambda>ty.
     bind_e (text_column (sku p)) (\<lambda>sk.
     bind_e (text_column (image_url p)) (\<lambda>img.
     bind_e (text_column (description p)) (\<lambda>de.
     bind_e (if quantity p = PNone then Inr (PInt 0) else integer_column (quantity p)) (\<lambda>qty.
     bind_e (integer_key (created_by p)) (\<lambda>cb.
       if nm = PNone \<or> sk = PNone \<or> qty = PNone \<or> pr = PNone then Inl IntegrityError
       else if list_ex (\<lambda>q. sku q = sk) (products s) then Inl IntegrityError
       else append_row s
              \<lparr>pid = next_id (map pid (products s)), name = nm, ptype = ty, sku = sk,
               image_url = img, description = de, quantity = qty, price = pr,
               is_active = True, created_by = cb\<rparr>))))))))"

text \<open>
  \<^verbatim>\<open>Product.query.get\<close> gives the row with the key, active or not; a key outside 64
  bits, which no row has, counts as absent here. \<^verbatim>\<open>save\<close> of a loaded product writes
  the attributes that differ from the row with its key, each as its column makes it,
  and fails when a column that is not nullable changes to NULL. No handler changes a
  \<^verbatim>\<open>sku\<close>, so the unique index cannot fail here. The object then shows the row.
\<close>

definition query_get :: "db \<Rightarrow> int \<Rightarrow> product option" where
  "query_get s i = find (\<lambda>p. pid p = i) (products s)"

definition changed :: "(pyval \<Rightarrow> error + pyval) \<Rightarrow> pyval \<Rightarrow> pyval \<Rightarrow> error + pyval" where
  "changed column new old = (if new = old then Inr old else column new)"

definition write_row :: "db \<Rightarrow> product \<Rightarrow> error + (db \<times> product)" where
  "write_row s r =
     Inr (s\<lparr>products := map (\<lambda>q. if pid q = pid r then r else q) (products s)\<rparr>, r)"

definition update_row :: "db \<Rightarrow> product \<Rightarrow> error + (db \<times> product)" where
  "update_row s p =
     (case query_get s (pid p) of
        None \<Rightarrow> Inr (s, p)
      | Some old \<Rightarrow>
          bind_e (changed float_column (price p) (price old)) (\<lambda>pr.
          bind_e (changed text_column (name p) (name old)) (\<lambda>nm.
          bind_e (changed text_column (ptype p) (ptype old)) (\<lambda>ty.
          bind_e (changed text_column (image_url p) (image_url old)) (\<lambda>img.
          bind_e (changed text_column (description p) (description old)) (\<lambda>de.
          bind_e (changed integer_column (quantity p) (quantity old)) (\<lambda>qty.
            if (nm = PNone \<and> name old \<noteq> PNone)
               \<or> (qty = PNone \<and> quantity old \<noteq> PNone)
               \<or> (pr = PNone \<and> price old \<noteq> PNone)
            then Inl IntegrityError
            else write_row s
                   (p\<lparr>name := nm, ptype := ty, image_url := img, description := de,
                      quantity := qty, price := pr\<rparr>))))))))"

text \<open>
  \<^verbatim>\<open>Product.find_by_sku\<close> filters on \<^verbatim>\<open>is_active=True\<close>. The comparison with the
  column makes a text of the key as the column would; NaN, bound as NULL, equals
  nothing.
\<close>

definition find_by_sku :: "db \<Rightarrow> pyval \<Rightarrow> product option" where
  "find_by_sku s k = find (\<lambda>p. sku p = k \<and> is_active p) (products s)"

definition sku_lookup :: "db \<Rightarrow> pyval \<Rightarrow> error + product option" where
  "sku_lookup s k =
     bind_e (text_column k) (\<lambda>t. Inr (if k = PFloat NaN then None else find_by_sku s t))"

text \<open>
  \<^verbatim>\<open>Product.update_quantity\<close>: the check comes before the assignment, and the
  \<^verbatim>\<open>save\<close> commits the object with every attribute set on it so far.
\<close>

definition update_quantity :: "db \<Rightarrow> product \<Rightarrow> pyval \<Rightarrow> error + (db \<times> product)" where
  "update_quantity s p new_quantity =
     (case py_lt0 new_quantity of
        Inl e \<Rightarrow> Inl e
      | Inr True \<Rightarrow> Inl (ValueError ''Quantity cannot be negative'')
      | Inr False \<Rightarrow> update_row s (p\<lparr>quantity := new_quantity\<rparr>))"

definition is_in_stock :: "product \<Rightarrow> error + bool" where
  "is_in_stock p = py_gt0 (quantity p)"

text \<open>
  \<^verbatim>\<open>Product.to_dict\<close> and \<^verbatim>\<open>product_to_dict\<close>: the columns and the computed
  \<^verbatim>\<open>in_stock\<close>.
\<close>

record product_dict = product +
  in_stock :: bool

definition to_dict :: "product \<Rightarrow> error + product_dict" where
  "to_dict p =
     (case is_in_stock p of
        Inl e \<Rightarrow> Inl e
      | Inr b \<Rightarrow> Inr (product.extend p (product_dict.fields b)))"

section \<open>\<^verbatim>\<open>services/product_service.py\<close>\<close>

text \<open>
  The text of a reply: a literal, the f-string around the SKU, or a literal followed
  by \<^verbatim>\<open>str(e)\<close> of a caught exception.
\<close>

datatype message = Text string | SkuExists pyval | Failed string error

fun join :: "string \<Rightarrow> string list \<Rightarrow> string" where
  "join sep [] = []"
| "join sep [x] = x"
| "join sep (x # y # ys) = x @ sep @ join sep (y # ys)"

definition required_fields :: "string list" where
  "required_fields = [''name'', ''sku'', ''quantity'', ''price'']"

text \<open>
  \<^verbatim>\<open>not v or len(v.strip()) < n\<close>: a value that is true and not a string has no
  \<^verbatim>\<open>strip\<close>.
\<close>

definition too_short :: "pyval \<Rightarrow> nat \<Rightarrow> error + bool" where
  "too_short v n =
     (if \<not> truthy v then Inr True
      else (case v of PStr s \<Rightarrow> Inr (length (strip s) < n) | _ \<Rightarrow> Inl AttributeError))"

definition text_errors :: "data \<Rightarrow> string \<Rightarrow> nat \<Rightarrow> string \<Rightarrow> error + string list" where
  "text_errors d k n msg =
     (case map_of d k of
        None \<Rightarrow> Inr []
      | Some v \<Rightarrow> bind_e (too_short v n) (\<lambda>b. Inr (if b then [msg] else [])))"

text \<open>
  The two numeric checks catch \<^verbatim>\<open>ValueError\<close> and \<^verbatim>\<open>TypeError\<close> only; the check
  is made on the converted value.
\<close>

definition quantity_errors :: "data \<Rightarrow> error + string list" where
  "quantity_errors d =
     (case map_of d ''quantity'' of
        None \<Rightarrow> Inr []
      | Some v \<Rightarrow>
          (case py_int v of
             Inr q \<Rightarrow> Inr (if q < 0 then [''Quantity cannot be negative''] else [])
           | Inl (ValueError m) \<Rightarrow> Inr [''Quantity must be a valid integer'']
           | Inl TypeError \<Rightarrow> Inr [''Quantity must be a valid integer'']
           | Inl e \<Rightarrow> Inl e))"

definition price_errors :: "data \<Rightarrow> error + string list" where
  "price_errors d =
     (case map_of d ''price'' of
        None \<Rightarrow> Inr []
      | Some v \<Rightarrow>
          (case py_float v of
             Inr f \<Rightarrow> Inr (if float_lt0 f then [''Price cannot be negative''] else [])
           | Inl (ValueError m) \<Rightarrow> Inr [''Price must be a valid number'']
           | Inl TypeError \<Rightarrow> Inr [''Price must be a valid number'']
           | Inl e \<Rightarrow> Inl e))"

definition validate_product_data :: "data \<Rightarrow> error + (bool \<times> string list)" where
  "validate_product_data d =
     (if d = [] then Inr (False, [''No data provided''])
      else
        (let e0 = concat (map (\<lambda>f. if has_key d f then [] else [f @ '' is required''])
                              required_fields)
         in bind_e (text_errors d ''name'' 2
                      ''Product name must be at least 2 characters long'') (\<lambda>e1.
            bind_e (text_errors d ''sku'' 3 ''SKU must be at least 3 characters long'') (\<lambda>e2.
            bind_e (quantity_errors d) (\<lambda>e3.
            bind_e (price_errors d) (\<lambda>e4.
              (let errors = e0 @ e1 @ e2 @ e3 @ e4 in Inr (errors = [], errors))))))))"

type_synonym 'a result = "bool \<times> message \<times> 'a option"

text \<open>
  \<^verbatim>\<open>ProductService.create_product\<close>: every exception ends in the last
  \<^verbatim>\<open>except\<close>, and a failed \<^verbatim>\<open>save\<close> has rolled back.
\<close>

definition create_product :: "db \<Rightarrow> data \<Rightarrow> int option \<Rightarrow> db \<times> product result" where
  "create_product s d cb =
     (case validate_product_data d of
        Inl e \<Rightarrow> (s, False, Failed ''Product creation failed: '' e, None)
      | Inr (is_valid, errors) \<Rightarrow>
          if \<not> is_valid then (s, False, Text (join ''; '' errors), None)
          else
            (case getitem d ''sku'' of
               Inl e \<Rightarrow> (s, False, Failed ''Product creation failed: '' e, None)
             | Inr k \<Rightarrow>
                 (case sku_lookup s k of
                    Inl e \<Rightarrow> (s, False, Failed ''Product creation failed: '' e, None)
                  | Inr (Some existing) \<Rightarrow> (s, False, SkuExists k, None)
                  | Inr None \<Rightarrow>
                      (case bind_e (getitem d ''name'') (\<lambda>nm.
                            bind_e (getitem d ''quantity'') (\<lambda>qty.
                            bind_e (getitem d ''price'') (\<lambda>pr.
                              insert_product s
                                (Product nm k qty pr (get_or_none d ''type'')
                                   (get_or_none d ''image_url'')
                                   (get_or_none d ''description'') cb))))
                       of
                         Inl e \<Rightarrow> (s, False, Failed ''Product creation failed: '' e, None)
                       | Inr (s', p) \<Rightarrow>
                           (s', True, Text ''Product created successfully'', Some p)))))"

text \<open>\<^verbatim>\<open>ProductService.update_product_quantity\<close>.\<close>

definition quantity_failure :: "db \<Rightarrow> error \<Rightarrow> db \<times> product result" where
  "quantity_failure s e =
     (case e of
        ValueError m \<Rightarrow> (s, False, Text m, None)
      | _ \<Rightarrow> (s, False, Failed ''Quantity update failed: '' e, None))"

definition update_product_quantity :: "db \<Rightarrow> int \<Rightarrow> pyval \<Rightarrow> db \<times> product result" where
  "update_product_quantity s product_id new_quantity =
     (case query_get s product_id of
        None \<Rightarrow> (s, False, Text ''Product not found'', None)
      | Some p \<Rightarrow>
          if \<not> is_active p then (s, False, Text ''Product is inactive'', None)
          else
            (case (if \<not> isinstance_int new_quantity then Inr True else py_lt0 new_quantity) of
               Inl e \<Rightarrow> quantity_failure s e
             | Inr True \<Rightarrow> (s, False, Text ''Quantity must be a non-negative integer'', None)
             | Inr False \<Rightarrow>
                 (case update_quantity s p new_quantity of
                    Inl e \<Rightarrow> quantity_failure s e
                  | Inr (s', p') \<Rightarrow> (s', True, Text ''Quantity updated successfully'', Some p'))))"

text \<open>\<^verbatim>\<open>ProductService.get_product_by_id\<close> sees active products only.\<close>

definition get_product_by_id :: "db \<Rightarrow> int \<Rightarrow> product option" where
  "get_product_by_id s i = find (\<lambda>p. pid p = i \<and> is_active p) (products s)"

text \<open>
  The row that the store keeps for a created product: the key it gives, and the fields
  as their columns made them.
\<close>

definition created ::
  "db \<Rightarrow> pyval \<Rightarrow> pyval \<Rightarrow> pyval \<Rightarrow> pyval \<Rightarrow> pyval \<Rightarrow> pyval \<Rightarrow> pyval \<Rightarrow> int option \<Rightarrow> product"
where
  "created s nm k qty pr ty img de cb =
     \<lparr>pid = next_id (map pid (products s)), name = nm, ptype = ty, sku = k,
      image_url = img, description = de, quantity = qty, price = pr,
      is_active = True, created_by = cb\<rparr>"

section \<open>\<^verbatim>\<open>services/auth_service.py\<close>\<close>

text \<open>
  A token carries the identity it was made for; its signature and expiry belong to
  \<^verbatim>\<open>flask_jwt_extended\<close>. What a request presents is a token that the library
  accepts, or one of the three failures that \<^verbatim>\<open>app.py\<close> tells apart.
\<close>

datatype access_token = AccessToken string

definition create_access_token :: "string \<Rightarrow> access_token" where
  "create_access_token ident = AccessToken ident"

datatype authorization = Bearer access_token | ExpiredToken | InvalidToken | NoToken


text \<open>\<^verbatim>\<open>AuthService.register_user\<close> looks for the username only.\<close>

definition register_user :: "db \<Rightarrow> string \<Rightarrow> string \<Rightarrow> string option \<Rightarrow> db \<times> user result" where
  "register_user s uname pw em =
     (if find_by_username s uname \<noteq> None then (s, False, Text ''User already exists'', None)
      else
        (case insert_user s (User uname pw em) of
           Inl e \<Rightarrow> (s, False, Failed ''Registration failed: '' e, None)
         | Inr (s', u) \<Rightarrow> (s', True, Text ''User created successfully'', Some u)))"



section \<open>The handlers of \<^verbatim>\<open>app.py\<close>\<close>

record user_dict =
  d_id :: int
  d_username :: string
  d_email :: "string option"
  d_is_active :: bool
  total_products :: nat

definition user_to_dict :: "db \<Rightarrow> user \<Rightarrow> user_dict" where
  "user_to_dict s u =
     \<lparr>d_id = uid u, d_username = username u, d_email = email u,
      d_is_active = user_is_active u,
      total_products = length (filter (\<lambda>p. created_by p = Some (uid u)) (products s))\<rparr>"

datatype body =
    Msg message
  | UserCreated user_dict
  | LoggedIn access_token user_dict
  | ProductAdded int
  | ProductBody product_dict

record response =
  status :: nat
  body :: body

definition reply :: "nat \<Rightarrow> body \<Rightarrow> response" where
  "reply code b = \<lparr>status = code, body = b\<rparr>"

text \<open>
  \<^verbatim>\<open>@jwt_required()\<close> with the three loaders of \<^verbatim>\<open>app.py\<close>: the handler runs
  only for an accepted token, with its identity.
\<close>

fun jwt_required :: "authorization \<Rightarrow> response + string" where
  "jwt_required (Bearer (AccessToken ident)) = Inr ident"
| "jwt_required ExpiredToken = Inl (reply 401 (Msg (Text ''Token has expired'')))"
| "jwt_required InvalidToken = Inl (reply 401 (Msg (Text ''Invalid token'')))"
| "jwt_required NoToken = Inl (reply 401 (Msg (Text ''Authorization token is required'')))"

definition not_found :: response where
  "not_found = reply 404 (Msg (Text ''Resource not found''))"

definition internal_error :: response where
  "internal_error = reply 500 (Msg (Text ''Internal server error''))"

subsection \<open>Users\<close>

text \<open>
  The body of \<^verbatim>\<open>/register\<close> and \<^verbatim>\<open>/login\<close>: each field a JSON string or absent.
\<close>

record user_data =
  f_username :: "string option"
  f_password :: "string option"
  f_email :: "string option"

text \<open>\<^verbatim>\<open>email and User.query.filter_by(email=email).first()\<close>\<close>

definition email_taken :: "db \<Rightarrow> string option \<Rightarrow> bool" where
  "email_taken s em =
     (case em of None \<Rightarrow> False | Some e \<Rightarrow> e \<noteq> [] \<and> find_by_email s e \<noteq> None)"

definition register :: "db \<Rightarrow> user_data \<Rightarrow> db \<times> response" where
  "register s d =
     (case (f_username d, f_password d) of
        (Some uname, Some pw) \<Rightarrow>
          if uname = [] then (s, reply 400 (Msg (Text ''Missing username or password'')))
          else if pw = [] then (s, reply 400 (Msg (Text ''Missing username or password'')))
          else if find_by_username s uname \<noteq> None
          then (s, reply 409 (Msg (Text ''User already exists'')))
          else if email_taken s (f_email d)
          then (s, reply 409 (Msg (Text ''Email already registered'')))
          else
            (case insert_user s (User uname pw (f_email d)) of
               Inl e \<Rightarrow> (s, reply 500 (Msg (Failed ''Error creating user: '' e)))
             | Inr (s', u) \<Rightarrow> (s', reply 201 (UserCreated (user_to_dict s' u))))
      | _ \<Rightarrow> (s, reply 400 (Msg (Text ''Missing username or password''))))"


subsection \<open>Products\<close>

text \<open>
  \<^verbatim>\<open>add_product\<close> of \<^verbatim>\<open>app.py\<close>: the fields must be present, nothing more is
  checked before the object is built from them. The lookup by sku stands before the
  \<^verbatim>\<open>try\<close>, so an exception of it reaches the handler for status 500.
\<close>

definition add_product :: "db \<Rightarrow> authorization \<Rightarrow> data \<Rightarrow> db \<times> response" where
  "add_product s a d =
     (case jwt_required a of
        Inl r \<Rightarrow> (s, r)
      | Inr current_user_id \<Rightarrow>
          if \<not> list_all (has_key d) required_fields
          then (s, reply 400 (Msg (Text ''Missing required product fields'')))
          else
            (case sku_lookup s (get_or_none d ''sku'') of
               Inl e \<Rightarrow> (s, internal_error)
             | Inr (Some existing) \<Rightarrow>
                 (s, reply 409 (Msg (SkuExists (get_or_none d ''sku''))))
             | Inr None \<Rightarrow>
                 (case bind_e (int_of_str current_user_id) (\<lambda>cb.
                         insert_product s
                           (Product (get_or_none d ''name'') (get_or_none d ''sku'')
                              (get_or_none d ''quantity'') (get_or_none d ''price'')
                              (get_or_none d ''type'') (get_or_none d ''image_url'')
                              (get_or_none d ''description'') (Some cb)))
                  of
                    Inl e \<Rightarrow> (s, reply 500 (Msg (Failed ''Error adding product: '' e)))
                  | Inr (s', p) \<Rightarrow> (s', reply 201 (ProductAdded (pid p))))))"


definition update_failure :: "string \<Rightarrow> error \<Rightarrow> response" where
  "update_failure prefix e =
     (case e of
        ValueError m \<Rightarrow> reply 400 (Msg (Text m))
      | _ \<Rightarrow> reply 500 (Msg (Failed prefix e)))"


text \<open>
  \<^verbatim>\<open>update_product_quantity\<close> of \<^verbatim>\<open>app.py\<close>, the handler of
  \<^verbatim>\<open>PUT /products/<id>/quantity\<close>.
\<close>

definition put_quantity :: "db \<Rightarrow> authorization \<Rightarrow> int \<Rightarrow> data \<Rightarrow> db \<times> response" where
  "put_quantity s a i d =
     (case jwt_required a of
        Inl r \<Rightarrow> (s, r)
      | Inr ident \<Rightarrow>
          (case query_get s i of
             None \<Rightarrow> (s, not_found)
           | Some p \<Rightarrow>
               (case map_of d ''quantity'' of
                  None \<Rightarrow> (s, reply 400 (Msg (Text ''Invalid or missing quantity'')))
                | Some q \<Rightarrow>
                    if \<not> isinstance_int q
                    then (s, reply 400 (Msg (Text ''Invalid or missing quantity'')))
                    else
                      (case update_quantity s p q of
                         Inl e \<Rightarrow> (s, update_failure ''Error updating quantity: '' e)
                       | Inr (s', p') \<Rightarrow>
                           (case to_dict p' of
                              Inl e \<Rightarrow> (s', update_failure ''Error updating quantity: '' e)
                            | Inr pd \<Rightarrow> (s', reply 200 (ProductBody pd)))))))"

text \<open>
  \<^verbatim>\<open>get_product\<close> has no \<^verbatim>\<open>try\<close>: an exception of the serialisation reaches the
  handler for status 500.
\<close>

definition get_product :: "db \<Rightarrow> authorization \<Rightarrow> int \<Rightarrow> response" where
  "get_product s a i =
     (case jwt_required a of
        Inl r \<Rightarrow> r
      | Inr ident \<Rightarrow>
          (case query_get s i of
             None \<Rightarrow> not_found
           | Some p \<Rightarrow>
               (case to_dict p of
                  Inl e \<Rightarrow> internal_error
                | Inr pd \<Rightarrow> reply 200 (ProductBody pd))))"

definition delete_product :: "db \<Rightarrow> authorization \<Rightarrow> int \<Rightarrow> db \<times> response" where
  "delete_product s a i =
     (case jwt_required a of
        Inl r \<Rightarrow> (s, r)
      | Inr ident \<Rightarrow>
          (case query_get s i of
             None \<Rightarrow> (s, not_found)
           | Some p \<Rightarrow>
               (case update_row s (p\<lparr>is_active := False\<rparr>) of
                  Inl e \<Rightarrow> (s, reply 500 (Msg (Failed ''Error deleting product: '' e)))
                | Inr (s', r) \<Rightarrow>
                    (s', reply 200 (Msg (Text ''Product deleted successfully''))))))"

section \<open>Stores and requests used as examples\<close>

definition alice :: user where
  "alice =
     \<lparr>uid = 1, username = ''alice'', password_hash = generate_password_hash ''secret1'',
      email = Some ''alice@example.org'', user_is_active = True\<rparr>"

definition widget_row :: product where
  "widget_row =
     \<lparr>pid = 1, name = PStr ''Widget'', ptype = PNone, sku = PStr ''SKU-100'',
      image_url = PNone, description = PNone, quantity = PInt 5,
      price = PFloat (Finite (5 / 2)), is_active = True, created_by = Some 1\<rparr>"

definition fresh_store :: db where
  "fresh_store = \<lparr>users = [alice], products = []\<rparr>"

definition stocked_store :: db where
  "stocked_store = \<lparr>users = [alice], products = [widget_row]\<rparr>"

definition retired_store :: db where
  "retired_store = \<lparr>users = [alice], products = [widget_row\<lparr>is_active := False\<rparr>]\<rparr>"

definition alice_token :: authorization where
  "alice_token = Bearer (create_access_token ''1'')"

definition widget :: data where
  "widget =
     [(''name'', PStr ''Widget''), (''sku'', PStr ''SKU-100''), (''quantity'', PInt 5),
      (''price'', PFloat (Finite (5 / 2)))]"

text \<open>The same request with quantity and price sent as strings.\<close>

definition raw_widget :: data where
  "raw_widget =
     [(''name'', PStr ''Widget''), (''sku'', PStr ''SKU-100''), (''quantity'', PStr ''5''),
      (''price'', PStr ''9.99'')]"

text \<open>A name of two characters and a sku of three, each ending in a blank.\<close>

definition padded_widget :: data where
  "padded_widget =
     [(''name'', PStr ''A ''), (''sku'', PStr ''AB ''), (''quantity'', PInt 5),
      (''price'', PFloat (Finite (5 / 2)))]"

text \<open>An integer price beyond the range of a float.\<close>

definition huge_price_widget :: data where
  "huge_price_widget =
     [(''name'', PStr ''Widget''), (''sku'', PStr ''SKU-100''), (''quantity'', PInt 5),
      (''price'', PInt (2 ^ 1024))]"

text \<open>The row that the store keeps for \<open>raw_widget\<close>.\<close>

definition raw_widget_row :: product where
  "raw_widget_row =
     \<lparr>pid = 1, name = PStr ''Widget'', ptype = PNone, sku = PStr ''SKU-100'',
      image_url = PNone, description = PNone, quantity = PInt 5,
      price = PFloat (Finite (5623870034678907 / 562949953421312)),
      is_active = True, created_by = None\<rparr>"

text \<open>The same with another quantity.\<close>

definition counted_widget :: data where
  "counted_widget =
     [(''name'', PStr ''Widget''), (''sku'', PStr ''SKU-100''), (''quantity'', PStr ''42''),
      (''price'', PStr ''9.99'')]"

text \<open>A quantity written with an underscore, which \<^verbatim>\<open>int\<close> accepts and SQLite does not.\<close>

definition grouped_widget :: data where
  "grouped_widget =
     [(''name'', PStr ''Widget''), (''sku'', PStr ''SKU-100''), (''quantity'', PStr ''1_000''),
      (''price'', PStr ''9.99'')]"

text \<open>A quantity, and a type, one beyond the largest integer of 64 bits.\<close>

definition too_many_widget :: data where
  "too_many_widget =
     [(''name'', PStr ''Widget''), (''sku'', PStr ''SKU-100''),
      (''quantity'', PInt 9223372036854775808), (''price'', PFloat (Finite (5 / 2)))]"

definition long_type_widget :: data where
  "long_type_widget =
     [(''name'', PStr ''Widget''), (''sku'', PStr ''SKU-100''), (''quantity'', PInt 5),
      (''price'', PFloat (Finite (5 / 2))), (''type'', PInt 9223372036854775808)]"


section \<open>Lemmas about the store\<close>

lemma query_get_pid: "query_get s i = Some p \<Longrightarrow> pid p = i"
  by (auto simp: query_get_def find_Some_iff)

lemma find_replace:
  assumes "pid p' = i"
  shows "find (\<lambda>q. pid q = i) (map (\<lambda>q. if pid q = i then p' else q) xs)
         = map_option (\<lambda>q. p') (find (\<lambda>q. pid q = i) xs)"
  using assms by (induction xs) auto

lemma update_row_flag:
  assumes "query_get s i = Some p"
  shows "update_row s (p\<lparr>is_active := b\<rparr>)
         = Inr (s\<lparr>products := map (\<lambda>q. if pid q = i then p\<lparr>is_active := b\<rparr> else q)
                                  (products s)\<rparr>,
                p\<lparr>is_active := b\<rparr>)"
proof -
  have "pid p = i" using assms by (rule query_get_pid)
  then show ?thesis
    using assms by (simp add: update_row_def changed_def bind_e_def write_row_def)
qed

lemma update_row_quantity:
  assumes "query_get s i = Some p" and "int64 n"
  shows "update_row s (p\<lparr>quantity := PInt n\<rparr>)
         = Inr (s\<lparr>products := map (\<lambda>q. if pid q = i then p\<lparr>quantity := PInt n\<rparr> else q)
                                  (products s)\<rparr>,
                p\<lparr>quantity := PInt n\<rparr>)"
proof -
  have "pid p = i" using assms(1) by (rule query_get_pid)
  then show ?thesis
    using assms by (simp add: update_row_def changed_def bind_e_def write_row_def)
qed

lemma delete_found:
  assumes "query_get s i = Some p"
  shows "delete_product s (Bearer (AccessToken t)) i
         = (s\<lparr>products := map (\<lambda>q. if pid q = i then p\<lparr>is_active := False\<rparr> else q) (products s)\<rparr>,
            reply 200 (Msg (Text ''Product deleted successfully'')))"
  using assms update_row_flag[OF assms, of False] by (simp add: delete_product_def)

lemma query_get_replaced:
  assumes "query_get s i = Some p" "pid p' = i"
  shows "query_get (s\<lparr>products := map (\<lambda>q. if pid q = i then p' else q) (products s)\<rparr>) i = Some p'"
  using assms by (simp add: query_get_def find_replace)

lemma delete_twice: "delete_product (fst (delete_product s a i)) a i = delete_product s a i"
proof (cases "jwt_required a")
  case (Inl r)
  then show ?thesis by (simp add: delete_product_def)
next
  case (Inr ident)
  then obtain t where a: "a = Bearer (AccessToken t)"
    by (cases a rule: jwt_required.cases) auto
  show ?thesis
  proof (cases "query_get s i")
    case None
    then show ?thesis by (simp add: delete_product_def a)
  next
    case (Some p)
    let ?p' = "p\<lparr>is_active := False\<rparr>"
    let ?s' = "s\<lparr>products := map (\<lambda>q. if pid q = i then ?p' else q) (products s)\<rparr>"
    have pid: "pid p = i" using Some by (rule query_get_pid)
    have first: "delete_product s a i = (?s', reply 200 (Msg (Text ''Product deleted successfully'')))"
      unfolding a using Some by (rule delete_found)
    have get': "query_get ?s' i = Some ?p'"
      using Some pid by (intro query_get_replaced) auto
    have "delete_product ?s' a i
          = (?s'\<lparr>products := map (\<lambda>q. if pid q = i then ?p'\<lparr>is_active := False\<rparr> else q) (products ?s')\<rparr>,
             reply 200 (Msg (Text ''Product deleted successfully'')))"
      unfolding a using get' by (rule delete_found)
    also have "?s'\<lparr>products := map (\<lambda>q. if pid q = i then ?p'\<lparr>is_active := False\<rparr> else q) (products ?s')\<rparr> = ?s'"
      by (simp add: comp_def if_distrib cong: if_cong)
    finally show ?thesis by (simp add: first)
  qed
qed

section \<open>Lemmas about validation and creation\<close>

lemma find_snoc:
  "find P (xs @ [y]) = (case find P xs of None \<Rightarrow> (if P y then Some y else None) | Some x \<Rightarrow> Some x)"
  by (induction xs) auto

lemma text_errors_ok:
  assumes "map_of d k = Some (PStr t)" and "n \<le> length (strip t)" and "0 < n"
  shows "text_errors d k n msg = Inr []"
proof -
  have "t \<noteq> []" using assms(2,3) by (auto simp: strip_def)
  then show ?thesis
    using assms by (simp add: text_errors_def too_short_def bind_e_def)
qed

lemma quantity_errors_ok:
  assumes "map_of d ''quantity'' = Some qv" and "py_int qv = Inr q" and "0 \<le> q"
  shows "quantity_errors d = Inr []"
  using assms by (simp add: quantity_errors_def)

lemma price_errors_ok:
  assumes "map_of d ''price'' = Some pr" and "py_float pr = Inr f" and "\<not> float_lt0 f"
  shows "price_errors d = Inr []"
  using assms by (simp add: price_errors_def)

lemma validate_ok:
  assumes "map_of d ''name'' = Some (PStr nm)" and "2 \<le> length (strip nm)"
    and "map_of d ''sku'' = Some (PStr k)" and "3 \<le> length (strip k)"
    and "map_of d ''quantity'' = Some qv" and "py_int qv = Inr q" and "0 \<le> q"
    and "map_of d ''price'' = Some pr" and "py_float pr = Inr f" and "\<not> float_lt0 f"
  shows "validate_product_data d = Inr (True, [])"
proof -
  have ne: "d \<noteq> []" using assms(1) by auto
  have e1: "text_errors d ''name'' 2 ''Product name must be at least 2 characters long'' = Inr []"
    using assms(1,2) by (intro text_errors_ok) auto
  have e2: "text_errors d ''sku'' 3 ''SKU must be at least 3 characters long'' = Inr []"
    using assms(3,4) by (intro text_errors_ok) auto
  have e3: "quantity_errors d = Inr []" using assms(5,6,7) by (rule quantity_errors_ok)
  have e4: "price_errors d = Inr []" using assms(8,9,10) by (rule price_errors_ok)
  have e0: "concat (map (\<lambda>f. if has_key d f then [] else [f @ '' is required'']) required_fields) = []"
    using assms(1,3,5,8) by (simp add: required_fields_def has_key_def)
  show ?thesis
    unfolding validate_product_data_def Let_def e0 e1 e2 e3 e4 using ne by (simp add: bind_e_def)
qed

lemma find_by_sku_none:
  "\<not> list_ex (\<lambda>p. sku p = k) (products s) \<Longrightarrow> find_by_sku s k = None"
  by (auto simp: find_by_sku_def find_None_iff list_ex_iff)

lemma float_column_ok:
  assumes "py_float pr = Inr f" and "f \<noteq> NaN"
  shows "float_column pr = Inr (PFloat f)"
  using assms by (cases pr) auto

lemma integer_key_ok: "integer_key cb = Inr cb' \<Longrightarrow> cb' = cb"
  by (auto simp: integer_key_def split: option.splits if_splits)

lemma insert_converted:
  assumes "py_float pr = Inr f" and "f \<noteq> NaN"
    and "qv \<noteq> PNone" and "integer_column qv = Inr qty" and "qty \<noteq> PNone"
    and "text_column ty0 = Inr ty" and "text_column img0 = Inr img"
    and "text_column de0 = Inr de" and "integer_key cb = Inr cb"
    and "\<not> list_ex (\<lambda>p. sku p = PStr k) (products s)"
  shows "insert_product s (Product (PStr nm) (PStr k) qv pr ty0 img0 de0 cb)
         = Inr (s\<lparr>products := products s
                     @ [created s (PStr nm) (PStr k) qty (PFloat f) ty img de cb]\<rparr>,
                created s (PStr nm) (PStr k) qty (PFloat f) ty img de cb)"
  using assms(3-10) float_column_ok[OF assms(1,2)]
  by (simp add: insert_product_def Product_def created_def bind_e_def append_row_def)

lemma create_inserts:
  assumes "validate_product_data d = Inr (True, [])"
    and "map_of d ''name'' = Some (PStr nm)" and "map_of d ''sku'' = Some (PStr k)"
    and "map_of d ''quantity'' = Some qv" and "map_of d ''price'' = Some pr"
    and "\<not> list_ex (\<lambda>p. sku p = PStr k) (products s)"
  shows "create_product s d cb
         = (case insert_product s
                  (Product (PStr nm) (PStr k) qv pr (get_or_none d ''type'')
                     (get_or_none d ''image_url'') (get_or_none d ''description'') cb)
            of
              Inl e \<Rightarrow> (s, False, Failed ''Product creation failed: '' e, None)
            | Inr (s', p) \<Rightarrow> (s', True, Text ''Product created successfully'', Some p))"
  using assms(1-5) find_by_sku_none[OF assms(6)]
  by (simp add: create_product_def getitem_def bind_e_def sku_lookup_def)

lemma find_by_sku_created:
  assumes "\<not> list_ex (\<lambda>p. sku p = k) (products s)" and "sku p = k" and "is_active p"
  shows "find_by_sku (s\<lparr>products := products s @ [p]\<rparr>) k = Some p"
proof -
  have "find (\<lambda>p. sku p = k \<and> is_active p) (products s) = None"
    using assms(1) by (auto simp: find_None_iff list_ex_iff)
  then show ?thesis using assms(2,3) by (simp add: find_by_sku_def find_snoc)
qed

section \<open>Lemmas about the conversions\<close>

lemma bits_1: "bits (Suc 0) = Suc 0"
  by (simp add: bits.simps[of "Suc 0"] bits.simps[of 0])

lemma bits_pow2: "bits (2 ^ k) = Suc k"
proof (induction k)
  case 0
  show ?case by (simp add: bits_1)
next
  case (Suc k)
  show ?case using Suc by (subst bits.simps) simp
qed

lemma round_pos_overflow: "round_pos (2 ^ 1024) = PosInf"
proof -
  have q: "quotient_of ((2::rat) ^ 1024) = (2 ^ 1024, 1)"
    using quotient_of_int[of "2 ^ 1024"] by (simp add: Rat.of_int_def)
  have n: "nat ((2::int) ^ 1024) = 2 ^ 1024" by (simp add: nat_power_eq)
  have b1: "bits (nat 1) = 1" by (simp add: bits_1)
  have p1: "pow2 1024 = 2 ^ 1024" by (simp add: pow2_def)
  have p2: "pow2 972 = 2 ^ 972" by (simp add: pow2_def)
  have m: "(2::rat) ^ 1024 / 2 ^ 972 = of_int (2 ^ 52)"
    by (simp add: power_diff[symmetric])
  show ?thesis
    unfolding round_pos_def q Let_def prod.case n bits_pow2 b1
    by (simp only: p1 p2 m) (simp add: p1 p2 m del: of_int_power)
qed

lemma round_pos_not_nan: "round_pos r \<noteq> NaN"
  by (simp add: round_pos_def Let_def split: prod.splits)

lemma round_b64_not_nan: "round_b64 r \<noteq> NaN"
proof -
  have "fneg f \<noteq> NaN" if "f \<noteq> NaN" for f using that by (cases f) auto
  then show ?thesis by (simp add: round_b64_def round_pos_not_nan)
qed

lemma real_to_integer_not_none: "f \<noteq> NaN \<Longrightarrow> real_to_integer f \<noteq> PNone"
  by (cases f) auto

lemma integer_of_text_not_none: "integer_of_text t \<noteq> PNone"
  by (auto simp: integer_of_text_def real_to_integer_not_none round_b64_not_nan
           split: option.splits)

lemma float_of_str_9_99:
  "float_of_str ''9.99'' = Inr (Finite (5623870034678907 / 562949953421312))"
proof -
  have b1: "trim ''9.99'' = ''9.99''" by code_simp
  have b2: "map lower ''9.99'' = ''9.99''" by code_simp
  have b3: "decimal_of ''9.99'' = Some (999 / 100)" by code_simp
  have b4: "round_b64 (999 / 100) = Finite (5623870034678907 / 562949953421312)"
    by code_simp
  show ?thesis by (simp add: float_of_str_def b1 b2 b3 b4)
qed

lemma round_b64_pos: "0 < r \<Longrightarrow> round_b64 r = round_pos r"
  by (simp add: round_b64_def)

lemma py_float_huge: "py_float (PInt (2 ^ 1024)) = Inl OverflowError"
proof -
  have a: "(of_int ((2::int) ^ 1024) :: rat) = 2 ^ 1024"
    by (simp only: of_int_power of_int_numeral)
  have b: "(0::rat) < 2 ^ 1024" by (rule zero_less_power) simp
  show ?thesis
    by (simp only: py_float.simps a round_b64_pos[OF b] round_pos_overflow pyfloat.case)
qed

lemma digit_char_is_digit: "d < 10 \<Longrightarrow> is_digit (digit_char d)"
  by (simp add: is_digit_def digit_char_def)

lemma digit_val_digit_char: "d < 10 \<Longrightarrow> digit_val (digit_char d) = d"
  by (simp add: digit_val_def digit_char_def)

lemma digits_of_digits: "list_all is_digit (digits_of n)"
proof (induction n rule: digits_of.induct)
  case (1 n)
  show ?case
  proof (cases "n < 10")
    case True
    then show ?thesis by (subst digits_of.simps) (simp add: digit_char_is_digit)
  next
    case False
    then show ?thesis using 1 by (subst digits_of.simps) (simp add: digit_char_is_digit)
  qed
qed

lemma digits_of_nonempty: "digits_of n \<noteq> []"
  by (subst digits_of.simps) simp


lemma digits_of_value: "foldl (\<lambda>a c. 10 * a + digit_val c) 0 (digits_of n) = n"
proof (induction n rule: digits_of.induct)
  case (1 n)
  show ?case
  proof (cases "n < 10")
    case True
    then show ?thesis by (subst digits_of.simps) (simp add: digit_val_digit_char)
  next
    case False
    then show ?thesis using 1 by (subst digits_of.simps) (simp add: digit_val_digit_char)
  qed
qed


lemma dropWhile_id: "ys \<noteq> [] \<Longrightarrow> \<not> P (hd ys) \<Longrightarrow> dropWhile P ys = ys"
  by (cases ys) auto



lemma digits_of_hd: "is_digit (hd (digits_of n))"
  using digits_of_digits[of n] digits_of_nonempty[of n] by (cases "digits_of n") auto

lemma digits_of_last: "is_digit (last (digits_of n))"
  using digits_of_digits[of n] digits_of_nonempty[of n]
  by (auto simp: list_all_iff)




lemma create_huge_price:
  "create_product fresh_store huge_price_widget None
   = (fresh_store, False, Failed ''Product creation failed: '' OverflowError, None)"
proof -
  have ne: "huge_price_widget \<noteq> []" by (simp add: huge_price_widget_def)
  have e1: "text_errors huge_price_widget ''name'' 2
              ''Product name must be at least 2 characters long'' = Inr []"
    by code_simp
  have e2: "text_errors huge_price_widget ''sku'' 3
              ''SKU must be at least 3 characters long'' = Inr []"
    by code_simp
  have e3: "quantity_errors huge_price_widget = Inr []" by code_simp
  have m: "map_of huge_price_widget ''price'' = Some (PInt (2 ^ 1024))"
    unfolding huge_price_widget_def by (simp del: power_numeral)
  have e4: "price_errors huge_price_widget = Inl OverflowError"
    by (simp only: price_errors_def m option.case py_float_huge sum.case error.case)
  have "validate_product_data huge_price_widget = Inl OverflowError"
    unfolding validate_product_data_def Let_def e1 e2 e3 e4 using ne by (simp add: bind_e_def)
  then show ?thesis by (simp add: create_product_def)
qed

section \<open>Lemmas about what the store keeps of a request\<close>

lemma create_converted:
  assumes "map_of d ''name'' = Some (PStr nm)" and "2 \<le> length (strip nm)"
    and "map_of d ''sku'' = Some (PStr k)" and "3 \<le> length (strip k)"
    and "map_of d ''quantity'' = Some qv" and "py_int qv = Inr q" and "0 \<le> q"
    and "integer_column qv = Inr qty" and "qty \<noteq> PNone"
    and "map_of d ''price'' = Some pr" and "py_float pr = Inr f"
    and "\<not> float_lt0 f" and "f \<noteq> NaN"
    and "text_column (get_or_none d ''type'') = Inr ty"
    and "text_column (get_or_none d ''image_url'') = Inr img"
    and "text_column (get_or_none d ''description'') = Inr de"
    and "integer_key cb = Inr cb"
    and "\<not> list_ex (\<lambda>p. sku p = PStr k) (products s)"
  shows "create_product s d cb
         = (s\<lparr>products := products s
                  @ [created s (PStr nm) (PStr k) qty (PFloat f) ty img de cb]\<rparr>,
            True, Text ''Product created successfully'',
            Some (created s (PStr nm) (PStr k) qty (PFloat f) ty img de cb))"
proof -
  have v: "validate_product_data d = Inr (True, [])"
    using assms(1-7,10-12) by (rule validate_ok)
  have ne: "qv \<noteq> PNone" using assms(6) by auto
  have i: "insert_product s
             (Product (PStr nm) (PStr k) qv pr (get_or_none d ''type'')
                (get_or_none d ''image_url'') (get_or_none d ''description'') cb)
           = Inr (s\<lparr>products := products s
                       @ [created s (PStr nm) (PStr k) qty (PFloat f) ty img de cb]\<rparr>,
                  created s (PStr nm) (PStr k) qty (PFloat f) ty img de cb)"
    using assms(11,13) ne assms(8,9,14-18) by (rule insert_converted)
  show ?thesis
    using create_inserts[OF v assms(1,3,5,10,18), of cb] by (simp add: i)
qed

lemma digit_run_digits:
  "list_all is_digit ds \<Longrightarrow>
   digit_run acc k ds = (foldl (\<lambda>a c. 10 * a + digit_val c) acc ds, k + length ds, [])"
  by (induction ds arbitrary: acc k) auto

lemma digit_not_sqlite_space: "is_digit c \<Longrightarrow> \<not> sqlite_space c"
  by (auto simp: is_digit_def sqlite_space_def Let_def)

lemma sqlite_trim_digits: "sqlite_trim (digits_of n) = digits_of n"
proof -
  have ne: "digits_of n \<noteq> []" by (rule digits_of_nonempty)
  have a: "dropWhile sqlite_space (digits_of n) = digits_of n"
    using ne digit_not_sqlite_space[OF digits_of_hd] by (rule dropWhile_id)
  have "hd (rev (digits_of n)) = last (digits_of n)" using ne by (simp add: hd_rev)
  then have "dropWhile sqlite_space (rev (digits_of n)) = rev (digits_of n)"
    using ne digit_not_sqlite_space[OF digits_of_last[of n]] by (intro dropWhile_id) auto
  with a show ?thesis by (simp add: sqlite_trim_def)
qed

lemma integer_of_text_digits:
  assumes "int64 (int n)"
  shows "integer_of_text (digits_of n) = PInt (int n)"
proof -
  obtain c cs where cs: "digits_of n = c # cs"
    using digits_of_nonempty[of n] by (cases "digits_of n") auto
  have "is_digit c" using digits_of_hd[of n] cs by simp
  then have "c \<noteq> CHR ''-''" "c \<noteq> CHR ''+''" by (auto simp: is_digit_def)
  then have s: "signed (digits_of n) = (False, digits_of n)" by (simp add: signed_def cs)
  have r: "digit_run 0 0 (digits_of n) = (n, length (digits_of n), [])"
    by (simp add: digit_run_digits[OF digits_of_digits] digits_of_value)
  have "sqlite_number (digits_of n) = Some (True, of_nat n)"
    using digits_of_nonempty[of n] by (simp add: sqlite_number_def sqlite_trim_digits s r)
  then show ?thesis using assms by (simp add: integer_of_text_def)
qed

lemma create_grouped_quantity:
  "py_int (PStr ''1_000'') = Inr 1000 \<and> integer_column (PStr ''1_000'') = Inr (PStr ''1_000'')"
  by code_simp

section \<open>The handlers and the table of users\<close>

lemma map_sum_bind_e: "map_sum id f (bind_e m g) = bind_e m (\<lambda>x. map_sum id f (g x))"
  by (cases m) (simp_all add: bind_e_def)














section \<open>Duplicates and inactive products in the services\<close>

text \<open>
  Whatever else a request holds, a sku that some product of the store has, active or
  not, is never inserted a second time; the duplicate-SKU reply is given when an active
  product has it. The service for quantities tells a missing product from an inactive
  one and otherwise sets the quantity.
\<close>

lemma insert_product_taken:
  assumes "text_column (sku p) = Inr t" and "list_ex (\<lambda>q. sku q = t) (products s)"
  shows "\<exists>e. insert_product s p = Inl e"
  using assms by (auto simp: insert_product_def bind_e_def split: sum.splits)

lemma create_existing_sku_fails:
  assumes "map_of d ''sku'' = Some k" and "text_column k = Inr t"
    and "list_ex (\<lambda>p. sku p = t) (products s)"
  shows "fst (create_product s d cb) = s \<and> \<not> fst (snd (create_product s d cb))"
proof (cases "validate_product_data d")
  case (Inl e)
  then show ?thesis by (simp add: create_product_def)
next
  case (Inr r)
  obtain ok errs where r: "r = (ok, errs)" by (cases r)
  show ?thesis
  proof (cases "ok \<and> sku_lookup s k = Inr None")
    case False
    then show ?thesis
      using assms(1)
      by (auto simp: create_product_def Inr r getitem_def split: sum.splits option.splits)
  next
    case True
    have "insert_product s (Product nm k qty pr ty img de cb) \<noteq> Inr x"
      for nm qty pr ty img de x
      using insert_product_taken[of "Product nm k qty pr ty img de cb" t s] assms(2,3)
      by (auto simp: Product_def)
    then show ?thesis
      using True assms(1)
      by (auto simp: create_product_def Inr r getitem_def bind_e_def
               split: option.splits sum.splits)
  qed
qed

lemma create_active_sku_duplicate:
  assumes "validate_product_data d = Inr (True, errs)" and "map_of d ''sku'' = Some (PStr k)"
    and "find_by_sku s (PStr k) = Some p"
  shows "create_product s d cb = (s, False, SkuExists (PStr k), None)"
  using assms by (simp add: create_product_def getitem_def sku_lookup_def bind_e_def)

lemma service_refuses_inactive:
  assumes "query_get s i = Some p" and "\<not> is_active p"
  shows "update_product_quantity s i q = (s, False, Text ''Product is inactive'', None)"
  using assms by (simp add: update_product_quantity_def)

lemma service_not_found:
  assumes "query_get s i = None"
  shows "update_product_quantity s i q = (s, False, Text ''Product not found'', None)"
  using assms by (simp add: update_product_quantity_def)

lemma service_sets_quantity:
  assumes "query_get s i = Some p" and "is_active p" and "0 \<le> n" and "int64 n"
  shows "update_product_quantity s i (PInt n)
         = (s\<lparr>products := map (\<lambda>q. if pid q = i then p\<lparr>quantity := PInt n\<rparr> else q) (products s)\<rparr>,
            True, Text ''Quantity updated successfully'', Some (p\<lparr>quantity := PInt n\<rparr>))"
  using assms update_row_quantity[OF assms(1,4)]
  by (simp add: update_product_quantity_def update_quantity_def)

lemma register_taken_username:
  assumes "find_by_username s uname = Some u"
  shows "register_user s uname pw em = (s, False, Text ''User already exists'', None)"
    and "uname \<noteq> [] \<Longrightarrow> pw \<noteq> [] \<Longrightarrow>
         register s \<lparr>f_username = Some uname, f_password = Some pw, f_email = em\<rparr>
         = (s, reply 409 (Msg (Text ''User already exists'')))"
  using assms by (simp_all add: register_user_def register_def)

section \<open>The claims\<close>

text \<open>
  C1. A create call whose sku is the sku of an existing product should fail with the
  duplicate-SKU error and insert nothing, also when that product is inactive. The
  lookup before the insert sees active products only: for the sku of a retired product
  it finds nothing, the insert then fails on the unique index, and the service reports a
  failed creation, the handler of \<^verbatim>\<open>app.py\<close> status 500, in place of the duplicate-SKU
  reply. Nothing is inserted.
\<close>

theorem create_with_retired_sku:
  "find_by_sku retired_store (PStr ''SKU-100'') = None
   \<and> create_product retired_store widget None
       = (retired_store, False, Failed ''Product creation failed: '' IntegrityError, None)
   \<and> add_product retired_store alice_token widget
       = (retired_store, reply 500 (Msg (Failed ''Error adding product: '' IntegrityError)))"
  by code_simp

text \<open>
  C2. No operation should store a negative quantity. The handler \<^verbatim>\<open>add_product\<close> of
  \<^verbatim>\<open>app.py\<close> builds the product from the request as it is and stores quantity -5;
  the service checks \<^verbatim>\<open>int(quantity)\<close>, which is 0 for -0.5, and stores -0.5.
\<close>

theorem negative_quantity_stored:
  "add_product fresh_store alice_token
     [(''name'', PStr ''Widget''), (''sku'', PStr ''SKU-100''), (''quantity'', PInt (- 5)),
      (''price'', PFloat (Finite (5 / 2)))]
   = (\<lparr>users = [alice], products = [widget_row\<lparr>quantity := PInt (- 5)\<rparr>]\<rparr>,
      reply 201 (ProductAdded 1))
   \<and> create_product fresh_store
     [(''name'', PStr ''Widget''), (''sku'', PStr ''SKU-100''),
      (''quantity'', PFloat (Finite (- 1 / 2))), (''price'', PFloat (Finite (5 / 2)))] (Some 1)
   = (\<lparr>users = [alice], products = [widget_row\<lparr>quantity := PFloat (Finite (- 1 / 2))\<rparr>]\<rparr>,
      True, Text ''Product created successfully'',
      Some (widget_row\<lparr>quantity := PFloat (Finite (- 1 / 2))\<rparr>))"
  by code_simp

text \<open>
  C4. For an existing active product and a negative requested quantity, the service and
  the handler of \<^verbatim>\<open>PUT /products/<id>/quantity\<close> both fail with a validation error
  (status 400 for the handler) and leave the store, and so the stored quantity, as it
  was.
\<close>

theorem negative_quantity_rejected:
  assumes "query_get s i = Some p" and "is_active p" and "py_lt0 q = Inr True"
    and "map_of d ''quantity'' = Some q"
  shows "update_product_quantity s i q
           = (s, False, Text ''Quantity must be a non-negative integer'', None)
       \<and> put_quantity s (Bearer t) i d
           = (s, reply 400 (Msg (Text (if isinstance_int q then ''Quantity cannot be negative''
                                       else ''Invalid or missing quantity''))))
       \<and> query_get (fst (update_product_quantity s i q)) i = Some p
       \<and> query_get (fst (put_quantity s (Bearer t) i d)) i = Some p"
proof -
  obtain ident where t: "t = AccessToken ident" by (cases t)
  have svc: "update_product_quantity s i q
           = (s, False, Text ''Quantity must be a non-negative integer'', None)"
    using assms by (simp add: update_product_quantity_def)
  have upd: "update_quantity s p q = Inl (ValueError ''Quantity cannot be negative'')"
    using assms(3) by (simp add: update_quantity_def)
  have "put_quantity s (Bearer t) i d
           = (s, reply 400 (Msg (Text (if isinstance_int q then ''Quantity cannot be negative''
                                       else ''Invalid or missing quantity''))))"
    using assms upd by (simp add: put_quantity_def t update_failure_def)
  with svc assms(1) show ?thesis by simp
qed

theorem negative_quantity_rejected_witness:
  "query_get stocked_store 1 = Some widget_row \<and> is_active widget_row
   \<and> py_lt0 (PInt (- 1)) = Inr True
   \<and> update_product_quantity stocked_store 1 (PInt (- 1))
       = (stocked_store, False, Text ''Quantity must be a non-negative integer'', None)
   \<and> put_quantity stocked_store alice_token 1 [(''quantity'', PInt (- 1))]
       = (stocked_store, reply 400 (Msg (Text ''Quantity cannot be negative'')))
   \<and> quantity (the (query_get (fst (put_quantity stocked_store alice_token 1
                                       [(''quantity'', PInt (- 1))])) 1)) = PInt 5"
proof -
  have h1: "query_get stocked_store 1 = Some widget_row" by code_simp
  have h2: "is_active widget_row" by code_simp
  have h3: "py_lt0 (PInt (- 1)) = Inr True" by simp
  have h4: "map_of [(''quantity'', PInt (- 1))] ''quantity'' = Some (PInt (- 1))" by simp
  have q: "quantity widget_row = PInt 5" by code_simp
  show ?thesis
    using negative_quantity_rejected [OF h1 h2 h3 h4, of "create_access_token ''1''"]
      h1 h2 q
    by (simp add: alice_token_def)
qed

text \<open>
  C5. A register call should fail with the duplicate-email error when the email is
  already registered. \<^verbatim>\<open>AuthService.register_user\<close> looks for the username only: with
  a new username and the email of alice the insert fails on the unique index and the
  service reports a failed registration, where the handler of \<^verbatim>\<open>app.py\<close> answers the
  same request with the duplicate-email reply. No account is created in either.
\<close>

theorem register_user_taken_email:
  "register_user fresh_store ''bob'' ''secret2'' (Some ''alice@example.org'')
     = (fresh_store, False, Failed ''Registration failed: '' IntegrityError, None)
   \<and> register fresh_store
       \<lparr>f_username = Some ''bob'', f_password = Some ''secret2'',
        f_email = Some ''alice@example.org''\<rparr>
     = (fresh_store, reply 409 (Msg (Text ''Email already registered'')))"
  by code_simp

text \<open>
  C6. An inactive product should never be updated. The service refuses, the handler
  of \<^verbatim>\<open>PUT /products/<id>/quantity\<close> in \<^verbatim>\<open>app.py\<close> has no such check and sets the
  quantity of the retired product to 7.
\<close>

theorem inactive_product_updated:
  "update_product_quantity retired_store 1 (PInt 7)
     = (retired_store, False, Text ''Product is inactive'', None)
   \<and> fst (put_quantity retired_store alice_token 1 [(''quantity'', PInt 7)])
     = \<lparr>users = [alice],
        products = [widget_row\<lparr>quantity := PInt 7, is_active := False\<rparr>]\<rparr>
   \<and> status (snd (put_quantity retired_store alice_token 1 [(''quantity'', PInt 7)])) = 200"
  by code_simp

text \<open>
  C8. Soft delete is idempotent: a second \<^verbatim>\<open>DELETE\<close> of an existing product gives
  the store and the reply of the first (status 200, the product inactive), and the
  product is still found by its id: \<^verbatim>\<open>GET /products/<id>\<close> answers with the status
  it had before, never 404.
\<close>

theorem soft_delete_idempotent:
  assumes "query_get s i = Some p" and "jwt_required a = Inr ident"
  shows "delete_product (fst (delete_product s a i)) a i = delete_product s a i
       \<and> snd (delete_product s a i) = reply 200 (Msg (Text ''Product deleted successfully''))
       \<and> query_get (fst (delete_product s a i)) i = Some (p\<lparr>is_active := False\<rparr>)
       \<and> status (get_product (fst (delete_product s a i)) a i) = status (get_product s a i)
       \<and> status (get_product (fst (delete_product s a i)) a i) \<noteq> 404"
proof -
  obtain t where a: "a = Bearer (AccessToken t)"
    using assms(2) by (cases a rule: jwt_required.cases) auto
  let ?p' = "p\<lparr>is_active := False\<rparr>"
  let ?s' = "s\<lparr>products := map (\<lambda>q. if pid q = i then ?p' else q) (products s)\<rparr>"
  have pid: "pid p = i" using assms(1) by (rule query_get_pid)
  have first: "delete_product s a i = (?s', reply 200 (Msg (Text ''Product deleted successfully'')))"
    unfolding a using assms(1) by (rule delete_found)
  have get': "query_get ?s' i = Some ?p'"
    using assms(1) pid by (intro query_get_replaced) auto
  have dict: "to_dict ?p' = map_sum id (\<lambda>pd. pd\<lparr>is_active := False\<rparr>) (to_dict p)"
    by (simp add: to_dict_def is_in_stock_def product.defs product_dict.defs split: sum.splits)
  have st: "status (get_product ?s' a i) = status (get_product s a i)"
    using assms(1) get'
    by (simp add: get_product_def a dict reply_def internal_error_def split: sum.splits)
  have nf: "status (get_product ?s' a i) \<noteq> 404"
    using get' by (simp add: get_product_def a reply_def internal_error_def split: sum.splits)
  show ?thesis
    using delete_twice[of s a i] first get' st nf by simp
qed

theorem soft_delete_idempotent_witness:
  "query_get stocked_store 1 = Some widget_row
   \<and> delete_product (fst (delete_product stocked_store alice_token 1)) alice_token 1
       = (retired_store, reply 200 (Msg (Text ''Product deleted successfully'')))
   \<and> query_get retired_store 1 = Some (widget_row\<lparr>is_active := False\<rparr>)
   \<and> status (get_product retired_store alice_token 1) = 200"
proof -
  have h1: "query_get stocked_store 1 = Some widget_row" by code_simp
  have h2: "jwt_required alice_token = Inr ''1''"
    by (simp add: alice_token_def create_access_token_def)
  have d: "delete_product stocked_store alice_token 1
           = (retired_store, reply 200 (Msg (Text ''Product deleted successfully'')))"
    by code_simp
  have g: "status (get_product stocked_store alice_token 1) = 200" by code_simp
  show ?thesis
    using soft_delete_idempotent [OF h1 h2] h1 d g by simp
qed

text \<open>
  C7, as the specification states it: every input with a name of at least 2 characters, a
  sku of at least 3 characters, an integer quantity not below 0 and a price not below 0
  is created. Such inputs are refused for five reasons: a name or sku that is shorter
  once the surrounding white space is stripped, a sku that a product of the store
  already has, an integer price too large for \<^verbatim>\<open>float\<close>, and a quantity or an
  optional field that is an integer beyond 64 bits, which the driver of the store does
  not take.
\<close>

theorem create_valid_input_counterexample:
  "length ''A '' = 2 \<and> length ''AB '' = 3
   \<and> create_product fresh_store padded_widget None
       = (fresh_store, False,
          Text ''Product name must be at least 2 characters long; SKU must be at least 3 characters long'',
          None)
   \<and> create_product stocked_store widget None
       = (stocked_store, False, SkuExists (PStr ''SKU-100''), None)
   \<and> create_product fresh_store huge_price_widget None
       = (fresh_store, False, Failed ''Product creation failed: '' OverflowError, None)
   \<and> create_product fresh_store too_many_widget None
       = (fresh_store, False, Failed ''Product creation failed: '' OverflowError, None)
   \<and> create_product fresh_store long_type_widget None
       = (fresh_store, False, Failed ''Product creation failed: '' OverflowError, None)"
proof -
  have c1: "create_product fresh_store padded_widget None
       = (fresh_store, False,
          Text ''Product name must be at least 2 characters long; SKU must be at least 3 characters long'',
          None)"
    by code_simp
  have c2: "create_product stocked_store widget None
       = (stocked_store, False, SkuExists (PStr ''SKU-100''), None)"
    by code_simp
  have c3: "create_product fresh_store too_many_widget None
       = (fresh_store, False, Failed ''Product creation failed: '' OverflowError, None)"
    by code_simp
  have c4: "create_product fresh_store long_type_widget None
       = (fresh_store, False, Failed ''Product creation failed: '' OverflowError, None)"
    by code_simp
  have l: "length ''A '' = 2 \<and> length ''AB '' = 3" by simp
  from l c1 c2 c3 c4 create_huge_price show ?thesis by blast
qed

text \<open>
  C7, amended. Let the name have at least 2 and the sku at least 3 characters after
  \<^verbatim>\<open>strip\<close>, the quantity be an integer not below 0 and within 64 bits, the price be
  a value that \<^verbatim>\<open>float\<close> converts to a number not below 0 (so not NaN), the optional
  fields and the creator be values that the store takes, and the sku be one that no
  product of the store has, active or not. Then \<^verbatim>\<open>create_product\<close> succeeds;
  \<^verbatim>\<open>find_by_sku\<close> in the new store returns the created product, with the name, sku
  and quantity of the request and with \<^verbatim>\<open>float(price)\<close> as its price; and
  \<^verbatim>\<open>in_stock\<close> in its dictionary is computed as \<open>quantity > 0\<close>.
\<close>

theorem create_then_lookup:
  assumes "map_of d ''name'' = Some (PStr nm)" and "2 \<le> length (strip nm)"
    and "map_of d ''sku'' = Some (PStr k)" and "3 \<le> length (strip k)"
    and "map_of d ''quantity'' = Some (PInt q)" and "0 \<le> q" and "int64 q"
    and "map_of d ''price'' = Some pr" and "py_float pr = Inr f"
    and "\<not> float_lt0 f" and "f \<noteq> NaN"
    and "text_column (get_or_none d ''type'') = Inr ty"
    and "text_column (get_or_none d ''image_url'') = Inr img"
    and "text_column (get_or_none d ''description'') = Inr de"
    and "integer_key cb = Inr cb"
    and "\<not> list_ex (\<lambda>p. sku p = PStr k) (products s)"
  shows "\<exists>s' p pd. create_product s d cb = (s', True, Text ''Product created successfully'', Some p)
           \<and> find_by_sku s' (PStr k) = Some p \<and> sku_lookup s' (PStr k) = Inr (Some p)
           \<and> name p = PStr nm \<and> sku p = PStr k \<and> quantity p = PInt q \<and> price p = PFloat f
           \<and> ptype p = ty \<and> image_url p = img \<and> description p = de
           \<and> is_active p \<and> created_by p = cb
           \<and> to_dict p = Inr pd \<and> in_stock pd = (0 < q) \<and> quantity pd = PInt q"
proof -
  let ?p = "created s (PStr nm) (PStr k) (PInt q) (PFloat f) ty img de cb"
  let ?s' = "s\<lparr>products := products s @ [?p]\<rparr>"
  let ?pd = "product.extend ?p (product_dict.fields (0 < q))"
  have q: "py_int (PInt q) = Inr q" by simp
  have col: "integer_column (PInt q) = Inr (PInt q)" using assms(7) by simp
  have c: "create_product s d cb = (?s', True, Text ''Product created successfully'', Some ?p)"
    using assms(1-5) q assms(6) col _ assms(8-16) by (rule create_converted) simp
  have l: "find_by_sku ?s' (PStr k) = Some ?p"
    using assms(16) by (rule find_by_sku_created) (simp_all add: created_def)
  then have l': "sku_lookup ?s' (PStr k) = Inr (Some ?p)"
    by (simp add: sku_lookup_def bind_e_def)
  have f: "name ?p = PStr nm \<and> sku ?p = PStr k \<and> quantity ?p = PInt q \<and> price ?p = PFloat f
           \<and> ptype ?p = ty \<and> image_url ?p = img \<and> description ?p = de
           \<and> is_active ?p \<and> created_by ?p = cb"
    by (simp add: created_def)
  have t: "to_dict ?p = Inr ?pd"
    by (simp add: to_dict_def is_in_stock_def created_def)
  have i: "in_stock ?pd = (0 < q) \<and> quantity ?pd = PInt q"
    by (simp add: product.defs product_dict.defs created_def)
  from c l l' f t i show ?thesis by blast
qed

theorem create_then_lookup_witness:
  "\<exists>s' p pd. create_product fresh_store widget (Some 1)
                = (s', True, Text ''Product created successfully'', Some p)
           \<and> find_by_sku s' (PStr ''SKU-100'') = Some p
           \<and> name p = PStr ''Widget'' \<and> quantity p = PInt 5
           \<and> price p = PFloat (Finite (5 / 2))
           \<and> to_dict p = Inr pd \<and> in_stock pd"
proof -
  have h1: "map_of widget ''name'' = Some (PStr ''Widget'')" by code_simp
  have h2: "2 \<le> length (strip ''Widget'')" by code_simp
  have h3: "map_of widget ''sku'' = Some (PStr ''SKU-100'')" by code_simp
  have h4: "3 \<le> length (strip ''SKU-100'')" by code_simp
  have h5: "map_of widget ''quantity'' = Some (PInt 5)" by code_simp
  have h6: "(0::int) \<le> 5" by simp
  have h7: "int64 5" by (simp add: int64_def)
  have h8: "map_of widget ''price'' = Some (PFloat (Finite (5 / 2)))" by code_simp
  have h9: "py_float (PFloat (Finite (5 / 2))) = Inr (Finite (5 / 2))" by simp
  have h10: "\<not> float_lt0 (Finite (5 / 2))" by simp
  have h11: "Finite (5 / 2) \<noteq> NaN" by simp
  have h12: "text_column (get_or_none widget ''type'') = Inr PNone" by code_simp
  have h13: "text_column (get_or_none widget ''image_url'') = Inr PNone" by code_simp
  have h14: "text_column (get_or_none widget ''description'') = Inr PNone" by code_simp
  have h15: "integer_key (Some 1) = Inr (Some 1)" by (simp add: integer_key_def int64_def)
  have h16: "\<not> list_ex (\<lambda>p. sku p = PStr ''SKU-100'') (products fresh_store)"
    by (simp add: fresh_store_def)
  show ?thesis
    using create_then_lookup [OF h1 h2 h3 h4 h5 h6 h7 h8 h9 h10 h11 h12 h13 h14 h15 h16]
    by fastforce
qed

text \<open>
  C10, as the specification states it: the stored quantity is the string that was sent,
  and the stored price the raw input. The product is built from the raw values, but the
  columns of the store convert them: for quantity \<open>''5''\<close> and price \<open>''9.99''\<close> the
  row holds the integer 5 and the float 9.99, and the stock test of that row is true.
\<close>

theorem create_stores_raw_counterexample:
  "py_int (PStr ''5'') = Inr 5
   \<and> create_product fresh_store raw_widget None
       = (\<lparr>users = [alice], products = [raw_widget_row]\<rparr>, True,
          Text ''Product created successfully'', Some raw_widget_row)
   \<and> quantity raw_widget_row = PInt 5 \<and> quantity raw_widget_row \<noteq> PStr ''5''
   \<and> price raw_widget_row \<noteq> PStr ''9.99''
   \<and> is_in_stock raw_widget_row = Inr True"
proof -
  have h1: "map_of raw_widget ''name'' = Some (PStr ''Widget'')" by code_simp
  have h2: "2 \<le> length (strip ''Widget'')" by code_simp
  have h3: "map_of raw_widget ''sku'' = Some (PStr ''SKU-100'')" by code_simp
  have h4: "3 \<le> length (strip ''SKU-100'')" by code_simp
  have h5: "map_of raw_widget ''quantity'' = Some (PStr ''5'')" by code_simp
  have h6: "py_int (PStr ''5'') = Inr 5" by code_simp
  have h7: "(0::int) \<le> 5" by simp
  have h8: "integer_column (PStr ''5'') = Inr (PInt 5)" by code_simp
  have h9: "map_of raw_widget ''price'' = Some (PStr ''9.99'')" by code_simp
  have h10: "py_float (PStr ''9.99'') = Inr (Finite (5623870034678907 / 562949953421312))"
    by (simp add: float_of_str_9_99)
  have h11: "\<not> float_lt0 (Finite (5623870034678907 / 562949953421312))" by simp
  have h12: "Finite (5623870034678907 / 562949953421312) \<noteq> NaN" by simp
  have h13: "text_column (get_or_none raw_widget ''type'') = Inr PNone" by code_simp
  have h14: "text_column (get_or_none raw_widget ''image_url'') = Inr PNone" by code_simp
  have h15: "text_column (get_or_none raw_widget ''description'') = Inr PNone" by code_simp
  have h16: "integer_key None = Inr None" by (simp add: integer_key_def)
  have h17: "\<not> list_ex (\<lambda>p. sku p = PStr ''SKU-100'') (products fresh_store)"
    by (simp add: fresh_store_def)
  have r: "created fresh_store (PStr ''Widget'') (PStr ''SKU-100'') (PInt 5)
             (PFloat (Finite (5623870034678907 / 562949953421312))) PNone PNone PNone None
           = raw_widget_row"
    by (simp add: created_def raw_widget_row_def fresh_store_def next_id_def)
  have c: "create_product fresh_store raw_widget None
       = (\<lparr>users = [alice], products = [raw_widget_row]\<rparr>, True,
          Text ''Product created successfully'', Some raw_widget_row)"
    using create_converted [OF h1 h2 h3 h4 h5 h6 h7 h8 _ h9 h10 h11 h12 h13 h14 h15 h16 h17]
    by (simp add: r) (simp add: fresh_store_def)
  have s: "is_in_stock raw_widget_row = Inr True"
    by (simp add: is_in_stock_def raw_widget_row_def)
  have q: "quantity raw_widget_row = PInt 5 \<and> quantity raw_widget_row \<noteq> PStr ''5''
           \<and> price raw_widget_row \<noteq> PStr ''9.99''"
    by (simp add: raw_widget_row_def)
  from h6 c q s show ?thesis by blast
qed

text \<open>
  C10, amended. When the quantity of a request is a string that \<^verbatim>\<open>int\<close> parses to a
  number not below 0, and the rest of the request is valid, validation passes on the
  converted values and the product is built from the values as they were sent. The
  store then keeps what its columns make of them: for the quantity, what a column of
  integers reads from the string, which is the integer itself when the string is its
  plain decimal text within 64 bits, and the string where SQLite reads no number; for
  the price, \<^verbatim>\<open>float(price)\<close>. The stock test is made on the stored quantity.
\<close>

theorem create_converts_raw_fields:
  assumes "map_of d ''name'' = Some (PStr nm)" and "2 \<le> length (strip nm)"
    and "map_of d ''sku'' = Some (PStr k)" and "3 \<le> length (strip k)"
    and "map_of d ''quantity'' = Some (PStr qs)" and "py_int (PStr qs) = Inr q" and "0 \<le> q"
    and "map_of d ''price'' = Some pr" and "py_float pr = Inr f"
    and "\<not> float_lt0 f" and "f \<noteq> NaN"
    and "text_column (get_or_none d ''type'') = Inr ty"
    and "text_column (get_or_none d ''image_url'') = Inr img"
    and "text_column (get_or_none d ''description'') = Inr de"
    and "integer_key cb = Inr cb"
    and "\<not> list_ex (\<lambda>p. sku p = PStr k) (products s)"
  shows "validate_product_data d = Inr (True, [])
       \<and> (\<exists>p. create_product s d cb
                 = (s\<lparr>products := products s @ [p]\<rparr>, True,
                    Text ''Product created successfully'', Some p)
              \<and> insert_product s
                  (Product (PStr nm) (PStr k) (PStr qs) pr (get_or_none d ''type'')
                     (get_or_none d ''image_url'') (get_or_none d ''description'') cb)
                 = Inr (s\<lparr>products := products s @ [p]\<rparr>, p)
              \<and> quantity p = integer_of_text qs
              \<and> (qs = digits_of (nat q) \<and> int64 q \<longrightarrow> quantity p = PInt q)
              \<and> price p = PFloat f
              \<and> is_in_stock p = py_gt0 (integer_of_text qs))"
proof -
  have v: "validate_product_data d = Inr (True, [])"
    using assms(1-10) by (rule validate_ok)
  let ?p = "created s (PStr nm) (PStr k) (integer_of_text qs) (PFloat f) ty img de cb"
  have col: "integer_column (PStr qs) = Inr (integer_of_text qs)" by simp
  have ne: "PStr qs \<noteq> PNone" by simp
  have c: "create_product s d cb
           = (s\<lparr>products := products s @ [?p]\<rparr>, True,
              Text ''Product created successfully'', Some ?p)"
    using assms(1-7) col integer_of_text_not_none assms(8-16) by (rule create_converted)
  have i: "insert_product s
             (Product (PStr nm) (PStr k) (PStr qs) pr (get_or_none d ''type'')
                (get_or_none d ''image_url'') (get_or_none d ''description'') cb)
           = Inr (s\<lparr>products := products s @ [?p]\<rparr>, ?p)"
    using assms(9,11) ne col integer_of_text_not_none assms(12-16) by (rule insert_converted)
  have n: "quantity ?p = PInt q" if "qs = digits_of (nat q)" and "int64 q"
    using that assms(7) integer_of_text_digits[of "nat q"] by (simp add: created_def)
  have "quantity ?p = integer_of_text qs \<and> price ?p = PFloat f
        \<and> is_in_stock ?p = py_gt0 (integer_of_text qs)"
    by (simp add: created_def is_in_stock_def)
  with v c i n show ?thesis by blast
qed

theorem create_converts_raw_fields_witness:
  "py_int (PStr ''42'') = Inr 42
   \<and> py_float (PStr ''9.99'') = Inr (Finite (5623870034678907 / 562949953421312))
   \<and> validate_product_data counted_widget = Inr (True, [])
   \<and> (\<exists>p. create_product fresh_store counted_widget None
              = (fresh_store\<lparr>products := [p]\<rparr>, True,
                 Text ''Product created successfully'', Some p)
           \<and> quantity p = PInt 42
           \<and> price p = PFloat (Finite (5623870034678907 / 562949953421312))
           \<and> is_in_stock p = Inr True)"
proof -
  have h1: "map_of counted_widget ''name'' = Some (PStr ''Widget'')" by code_simp
  have h2: "2 \<le> length (strip ''Widget'')" by code_simp
  have h3: "map_of counted_widget ''sku'' = Some (PStr ''SKU-100'')" by code_simp
  have h4: "3 \<le> length (strip ''SKU-100'')" by code_simp
  have h5: "map_of counted_widget ''quantity'' = Some (PStr ''42'')" by code_simp
  have h6: "py_int (PStr ''42'') = Inr 42" by code_simp
  have h7: "(0::int) \<le> 42" by simp
  have h8: "map_of counted_widget ''price'' = Some (PStr ''9.99'')" by code_simp
  have h9: "py_float (PStr ''9.99'') = Inr (Finite (5623870034678907 / 562949953421312))"
    by (simp add: float_of_str_9_99)
  have h10: "\<not> float_lt0 (Finite (5623870034678907 / 562949953421312))" by simp
  have h11: "Finite (5623870034678907 / 562949953421312) \<noteq> NaN" by simp
  have h12: "text_column (get_or_none counted_widget ''type'') = Inr PNone" by code_simp
  have h13: "text_column (get_or_none counted_widget ''image_url'') = Inr PNone" by code_simp
  have h14: "text_column (get_or_none counted_widget ''description'') = Inr PNone" by code_simp
  have h15: "integer_key None = Inr None" by (simp add: integer_key_def)
  have h16: "\<not> list_ex (\<lambda>p. sku p = PStr ''SKU-100'') (products fresh_store)"
    by (simp add: fresh_store_def)
  have d: "''42'' = digits_of (nat 42)" by code_simp
  have i: "int64 42" by (simp add: int64_def)
  have t: "integer_of_text ''42'' = PInt 42" by code_simp
  have e: "products fresh_store = []" by (simp add: fresh_store_def)
  show ?thesis
    using create_converts_raw_fields
            [OF h1 h2 h3 h4 h5 h6 h7 h8 h9 h10 h11 h12 h13 h14 h15 h16] h6 h9 d i t
    by (auto simp: e)
qed



end
